theory Spec2Isabelle
  imports Main "HOL-Library.AList" "HOL-Library.Sublist" "HOL-Library.Word"
begin

section \<open>Session table (session-manager.ts)\<close>

text \<open>
  \<^verbatim>\<open>SessionInfo\<close> of types.ts. Timestamps are the integer milliseconds of
  \<^verbatim>\<open>Date.now()\<close>; every operation that reads the clock takes the reading as its
  first argument.
\<close>

record SessionInfo =
  sessionId :: string
  lastActivity :: int

text \<open>
  The private \<^verbatim>\<open>Map<string, SessionInfo>\<close>. A JavaScript Map keeps its entries in
  insertion order with one entry per key, so it is an association list whose keys are
  distinct; \<^verbatim>\<open>Map.get\<close> is \<open>map_of\<close>, \<^verbatim>\<open>Map.set\<close> is \<open>AList.update\<close> (overwrite in place
  or append) and \<^verbatim>\<open>Map.delete\<close> is \<open>AList.delete\<close>.
\<close>

type_synonym sessions = "(string \<times> SessionInfo) list"

definition IDLE_TIMEOUT_MS :: int where
  "IDLE_TIMEOUT_MS = 30 * 60 * 1000"

text \<open>\<^verbatim>\<open>get\<close>: the entry found is mutated in place (its activity refreshed) and its
  handle returned; nothing happens when there is none.\<close>

definition SessionManager_get :: "int \<Rightarrow> string \<Rightarrow> sessions \<Rightarrow> string option \<times> sessions" where
  "SessionManager_get now conversationId m =
     (case map_of m conversationId of
        Some info \<Rightarrow>
          (Some (sessionId info),
           AList.update conversationId (info\<lparr>lastActivity := now\<rparr>) m)
      | None \<Rightarrow> (None, m))"

definition SessionManager_set :: "int \<Rightarrow> string \<Rightarrow> string \<Rightarrow> sessions \<Rightarrow> sessions" where
  "SessionManager_set now conversationId sid m =
     AList.update conversationId \<lparr>sessionId = sid, lastActivity = now\<rparr> m"

definition SessionManager_delete :: "string \<Rightarrow> sessions \<Rightarrow> bool \<times> sessions" where
  "SessionManager_delete conversationId m =
     (map_of m conversationId \<noteq> None, AList.delete conversationId m)"

definition activeCount :: "sessions \<Rightarrow> nat" where
  "activeCount m = length m"

text \<open>
  \<^verbatim>\<open>cleanup\<close>: the \<^verbatim>\<open>for (const [id, info] of this.sessions)\<close> loop. The second
  argument is what the iterator still has to visit, the third the live map, the fourth
  the counter \<^verbatim>\<open>removed\<close>. The loop deletes only the entry it is visiting, so the entries
  the iterator visits are those of the map when the loop started.
\<close>

fun cleanup_loop :: "int \<Rightarrow> (string \<times> SessionInfo) list \<Rightarrow> sessions \<Rightarrow> nat \<Rightarrow> sessions \<times> nat" where
  "cleanup_loop now [] m removed = (m, removed)"
| "cleanup_loop now ((ident, info) # rest) m removed =
     (if now - lastActivity info > IDLE_TIMEOUT_MS
      then cleanup_loop now rest (AList.delete ident m) (Suc removed)
      else cleanup_loop now rest m removed)"

definition cleanup :: "int \<Rightarrow> sessions \<Rightarrow> sessions \<times> nat" where
  "cleanup now m = cleanup_loop now m m 0"

section \<open>Wire types of the bridge (types.ts)\<close>

text \<open>
  \<^verbatim>\<open>ChatRequest\<close>, as the adapters receive it. \<^verbatim>\<open>model?: string\<close> is an optional
  field.
\<close>

record ChatRequest =
  conversation_id :: string
  message :: string
  working_dir :: string
  model :: "string option"

record usage =
  input_tokens :: int
  output_tokens :: int

text \<open>\<^verbatim>\<open>ChatResponse\<close>; \<^verbatim>\<open>compacted?: boolean\<close> is absent (\<open>None\<close>) unless the object
  literal that builds the response spreads it in.\<close>

record ChatResponse =
  result :: string
  session_id :: string
  usage :: usage
  is_error :: bool
  compacted :: "bool option"

text \<open>
  A value caught by \<^verbatim>\<open>catch (err: unknown)\<close>: an instance of \<^verbatim>\<open>Error\<close> with its
  message, or any other thrown value.
\<close>

datatype thrown = ErrorObject string | OtherValue

section \<open>The streamed-events adapter (claude-adapter.ts)\<close>

definition ALLOWED_TOOLS :: "string list" where
  "ALLOWED_TOOLS =
     [''Bash'', ''Read'', ''Write'', ''Edit'', ''Glob'', ''Grep'', ''WebFetch'', ''WebSearch'']"

text \<open>\<^verbatim>\<open>queryOptions: Record<string, unknown>\<close>: a dictionary from option names to the
  two kinds of value the adapter stores.\<close>

datatype option_value = StringList "string list" | StringValue string

type_synonym query_options = "string \<rightharpoonup> option_value"

text \<open>
  One message of the stream that \<^verbatim>\<open>query\<close> yields, with the fields the loop inspects.
  \<open>msg_result\<close> is \<open>Some s\<close> when the message has a \<^verbatim>\<open>result\<close> of type string; a
  field that is \<^verbatim>\<open>undefined\<close> is \<open>None\<close>.
\<close>

record sdk_message =
  msg_type :: string
  msg_subtype :: "string option"
  msg_session_id :: "string option"
  msg_result :: "string option"
  msg_input_tokens :: "int option"
  msg_output_tokens :: "int option"

text \<open>
  The backend, as the adapter sees it: called with the prompt and the options, it yields
  a finite sequence of messages and then either ends or throws. A failure to start or
  resume is a throw after no message.
\<close>

type_synonym claude_sdk = "string \<Rightarrow> query_options \<Rightarrow> sdk_message list \<times> thrown option"

text \<open>The local variables of \<^verbatim>\<open>ClaudeAdapter.chat\<close> that the loop assigns.\<close>

record claude_locals =
  resultText :: string
  sessionIdVar :: string
  inputTokens :: int
  outputTokens :: int
  compactedVar :: bool

definition claude_initial :: claude_locals where
  "claude_initial =
     \<lparr>resultText = [], sessionIdVar = [], inputTokens = 0, outputTokens = 0,
      compactedVar = False\<rparr>"

text \<open>The body of the \<^verbatim>\<open>for await\<close> loop: five independent tests on one message.\<close>

definition on_message :: "claude_locals \<Rightarrow> sdk_message \<Rightarrow> claude_locals" where
  "on_message v0 msg =
     (let v1 = (case msg_session_id msg of
                  Some sid \<Rightarrow>
                    if msg_type msg = ''system'' \<and> msg_subtype msg = Some ''init'' \<and> sid \<noteq> []
                    then v0\<lparr>sessionIdVar := sid\<rparr> else v0
                | None \<Rightarrow> v0);
          v2 = (if msg_type msg = ''system'' \<and> msg_subtype msg = Some ''compact_boundary''
                then v1\<lparr>compactedVar := True\<rparr> else v1);
          v3 = (case msg_result msg of Some r \<Rightarrow> v2\<lparr>resultText := r\<rparr> | None \<Rightarrow> v2);
          v4 = (case msg_input_tokens msg of Some n \<Rightarrow> v3\<lparr>inputTokens := n\<rparr> | None \<Rightarrow> v3);
          v5 = (case msg_output_tokens msg of Some n \<Rightarrow> v4\<lparr>outputTokens := n\<rparr> | None \<Rightarrow> v4)
      in v5)"

text \<open>The options built before the call: \<^verbatim>\<open>cwd\<close> and \<^verbatim>\<open>resume\<close> are set only from a
  non-empty string.\<close>

definition claude_query_options :: "ChatRequest \<Rightarrow> string option \<Rightarrow> query_options" where
  "claude_query_options req existingSessionId =
     (let o0 = [''allowedTools'' \<mapsto> StringList ALLOWED_TOOLS,
                ''permissionMode'' \<mapsto> StringValue ''bypassPermissions''];
          o1 = (if working_dir req \<noteq> [] then o0(''cwd'' \<mapsto> StringValue (working_dir req)) else o0);
          o2 = (case existingSessionId of
                  Some sid \<Rightarrow> if sid \<noteq> [] then o1(''resume'' \<mapsto> StringValue sid) else o1
                | None \<Rightarrow> o1)
      in o2)"

text \<open>\<^verbatim>\<open>a || b || ""\<close> on a string and an optional string.\<close>

definition best_handle :: "string \<Rightarrow> string option \<Rightarrow> string" where
  "best_handle fresh existing =
     (if fresh \<noteq> [] then fresh
      else case existing of Some h \<Rightarrow> h | None \<Rightarrow> [])"

definition thrown_text :: "string \<Rightarrow> thrown \<Rightarrow> string" where
  "thrown_text fallback err = (case err of ErrorObject m \<Rightarrow> m | OtherValue \<Rightarrow> fallback)"

definition claude_response :: "claude_locals \<Rightarrow> string option \<Rightarrow> bool \<Rightarrow> ChatResponse" where
  "claude_response v existingSessionId isError =
     \<lparr>result = resultText v,
      session_id = best_handle (sessionIdVar v) existingSessionId,
      usage = \<lparr>input_tokens = inputTokens v, output_tokens = outputTokens v\<rparr>,
      is_error = isError,
      compacted = (if compactedVar v then Some True else None)\<rparr>"

text \<open>
  \<^verbatim>\<open>ClaudeAdapter.chat\<close>. The clock is read once by \<^verbatim>\<open>get\<close> before the turn
  (\<open>t_get\<close>) and once by \<^verbatim>\<open>set\<close> after it (\<open>t_set\<close>). The result is what the
  \<^verbatim>\<open>async\<close> function settles to: \<open>Inr\<close> a response when it returns, \<open>Inl\<close> when it
  throws. A throw of the stream leaves the loop with the variables assigned so far and
  enters the \<^verbatim>\<open>catch\<close> block, which skips the \<^verbatim>\<open>set\<close>.
\<close>

definition claude_chat ::
  "claude_sdk \<Rightarrow> int \<Rightarrow> int \<Rightarrow> sessions \<Rightarrow> ChatRequest \<Rightarrow> (thrown + ChatResponse) \<times> sessions" where
  "claude_chat query t_get t_set sm req =
     (let (existingSessionId, sm1) = SessionManager_get t_get (conversation_id req) sm;
          queryOptions = claude_query_options req existingSessionId;
          (messages, failure) = query (message req) queryOptions;
          v = foldl on_message claude_initial messages
      in case failure of
           None \<Rightarrow>
             (Inr (claude_response v existingSessionId False),
              if sessionIdVar v \<noteq> []
              then SessionManager_set t_set (conversation_id req) (sessionIdVar v) sm1
              else sm1)
         | Some err \<Rightarrow>
             (Inr (claude_response
                     (v\<lparr>resultText := thrown_text ''Unknown error from Claude Code'' err\<rparr>)
                     existingSessionId True),
              sm1))"

section \<open>The thread-based adapter (codex-adapter.ts)\<close>

text \<open>
  The Codex SDK as the adapter uses it. \<^verbatim>\<open>resumeThread\<close> and \<^verbatim>\<open>startThread\<close> return a
  thread or throw; \<^verbatim>\<open>thread.run\<close> returns a turn or throws, and \<open>thread_id\<close> is what
  \<^verbatim>\<open>thread.id\<close> holds once \<^verbatim>\<open>run\<close> has returned (\<open>None\<close> for \<^verbatim>\<open>null\<close>).
\<close>

record codex_turn =
  finalResponse :: string
  turn_usage :: "usage option"

record codex_thread =
  thread_run :: "string \<Rightarrow> thrown + codex_turn"
  thread_id :: "string option"

record codex_sdk =
  resumeThread :: "string \<Rightarrow> thrown + codex_thread"
  startThread :: "string \<Rightarrow> thrown + codex_thread"

record codex_locals =
  c_resultText :: string
  c_threadId :: string
  c_inputTokens :: int
  c_outputTokens :: int

definition codex_initial :: codex_locals where
  "codex_initial = \<lparr>c_resultText = [], c_threadId = [], c_inputTokens = 0, c_outputTokens = 0\<rparr>"

definition codex_response :: "codex_locals \<Rightarrow> string option \<Rightarrow> bool \<Rightarrow> ChatResponse" where
  "codex_response v existingThreadId isError =
     \<lparr>result = c_resultText v,
      session_id = best_handle (c_threadId v) existingThreadId,
      usage = \<lparr>input_tokens = c_inputTokens v, output_tokens = c_outputTokens v\<rparr>,
      is_error = isError,
      compacted = None\<rparr>"

text \<open>The \<^verbatim>\<open>try\<close> block up to the first throw: the thread is resumed from a non-empty
  handle and started in \<^verbatim>\<open>req.working_dir || process.cwd()\<close> otherwise.\<close>

definition codex_open_thread ::
  "codex_sdk \<Rightarrow> string \<Rightarrow> ChatRequest \<Rightarrow> string option \<Rightarrow> thrown + codex_thread" where
  "codex_open_thread codex cwd req existingThreadId =
     (case existingThreadId of
        Some h \<Rightarrow>
          if h \<noteq> [] then resumeThread codex h
          else startThread codex (if working_dir req \<noteq> [] then working_dir req else cwd)
      | None \<Rightarrow> startThread codex (if working_dir req \<noteq> [] then working_dir req else cwd))"

definition codex_after_turn :: "codex_thread \<Rightarrow> codex_turn \<Rightarrow> codex_locals" where
  "codex_after_turn thread turn =
     (let v1 = codex_initial\<lparr>c_threadId := (case thread_id thread of Some i \<Rightarrow> i | None \<Rightarrow> []),
                              c_resultText := finalResponse turn\<rparr>
      in case turn_usage turn of
           Some u \<Rightarrow> v1\<lparr>c_inputTokens := input_tokens u, c_outputTokens := output_tokens u\<rparr>
         | None \<Rightarrow> v1)"

definition codex_failed :: "thrown \<Rightarrow> string option \<Rightarrow> ChatResponse" where
  "codex_failed err existingThreadId =
     codex_response (codex_initial\<lparr>c_resultText := thrown_text ''Unknown error from Codex'' err\<rparr>)
       existingThreadId True"

definition codex_chat ::
  "codex_sdk \<Rightarrow> string \<Rightarrow> int \<Rightarrow> int \<Rightarrow> sessions \<Rightarrow> ChatRequest
     \<Rightarrow> (thrown + ChatResponse) \<times> sessions" where
  "codex_chat codex cwd t_get t_set sm req =
     (let (existingThreadId, sm1) = SessionManager_get t_get (conversation_id req) sm
      in case codex_open_thread codex cwd req existingThreadId of
           Inl err \<Rightarrow> (Inr (codex_failed err existingThreadId), sm1)
         | Inr thread \<Rightarrow>
             (case thread_run thread (message req) of
                Inl err \<Rightarrow> (Inr (codex_failed err existingThreadId), sm1)
              | Inr turn \<Rightarrow>
                  (let v = codex_after_turn thread turn
                   in (Inr (codex_response v existingThreadId False),
                       if c_threadId v \<noteq> []
                       then SessionManager_set t_set (conversation_id req) (c_threadId v) sm1
                       else sm1))))"

section \<open>The bridge service (index.ts)\<close>

text \<open>
  The JSON body of \<^verbatim>\<open>POST /chat\<close> before validation: the handler casts it to
  \<^verbatim>\<open>ChatRequest\<close> without checking, so each field may be missing.
\<close>

record chat_body =
  body_conversation_id :: "string option"
  body_message :: "string option"
  body_working_dir :: "string option"
  body_model :: "string option"

text \<open>JavaScript truthiness of an optional string, and the string it stands for.\<close>

definition truthy :: "string option \<Rightarrow> bool" where
  "truthy s = (case s of Some t \<Rightarrow> t \<noteq> [] | None \<Rightarrow> False)"

definition string_of :: "string option \<Rightarrow> string" where
  "string_of s = (case s of Some t \<Rightarrow> t | None \<Rightarrow> [])"

record http_response =
  status :: nat
  json :: ChatResponse

datatype backend = ClaudeCode | Codex

text \<open>What a handler run depends on besides the request: the two backends, the process's
  current directory and the two clock readings of the adapter.\<close>

record bridge_env =
  env_query :: claude_sdk
  env_codex :: codex_sdk
  env_cwd :: string
  env_t_get :: int
  env_t_set :: int

record bridge_state =
  claudeSessionManager :: sessions
  codexSessionManager :: sessions

definition isCodexModel :: "string option \<Rightarrow> bool" where
  "isCodexModel m = (m = Some ''codex'' \<or> (truthy m \<and> prefix ''codex-'' (string_of m)))"

definition bad_request :: http_response where
  "bad_request =
     \<lparr>status = 400,
      json = \<lparr>result = [], session_id = [],
              usage = \<lparr>input_tokens = 0, output_tokens = 0\<rparr>,
              is_error = True, compacted = None\<rparr>\<rparr>"

definition internal_error :: http_response where
  "internal_error =
     \<lparr>status = 500,
      json = \<lparr>result = ''Internal bridge error'', session_id = [],
              usage = \<lparr>input_tokens = 0, output_tokens = 0\<rparr>,
              is_error = True, compacted = None\<rparr>\<rparr>"

text \<open>The request the adapter is given: the validated body with \<^verbatim>\<open>working_dir\<close>
  defaulted to \<^verbatim>\<open>process.cwd()\<close>.\<close>

definition defaulted_request :: "string \<Rightarrow> chat_body \<Rightarrow> ChatRequest" where
  "defaulted_request cwd body =
     \<lparr>conversation_id = string_of (body_conversation_id body),
      message = string_of (body_message body),
      working_dir = (if \<not> truthy (body_working_dir body) then cwd
                     else string_of (body_working_dir body)),
      model = body_model body\<rparr>"

definition respond :: "thrown + ChatResponse \<Rightarrow> http_response" where
  "respond settled =
     (case settled of
        Inr response \<Rightarrow> \<lparr>status = 200, json = response\<rparr>
      | Inl err \<Rightarrow> internal_error)"

text \<open>
  \<^verbatim>\<open>app.post("/chat")\<close> of the multi-backend server. The second component of the
  result lists the adapter \<^verbatim>\<open>chat\<close> calls the handler made, with the request passed.
\<close>

definition post_chat ::
  "bridge_env \<Rightarrow> bridge_state \<Rightarrow> chat_body
     \<Rightarrow> http_response \<times> (backend \<times> ChatRequest) list \<times> bridge_state" where
  "post_chat env st body =
     (if \<not> truthy (body_conversation_id body) \<or> \<not> truthy (body_message body)
      then (bad_request, [], st)
      else
        let req = defaulted_request (env_cwd env) body
        in if isCodexModel (model req)
           then
             (let (settled, sm) =
                    codex_chat (env_codex env) (env_cwd env) (env_t_get env) (env_t_set env)
                      (codexSessionManager st) req
              in (respond settled, [(Codex, req)], st\<lparr>codexSessionManager := sm\<rparr>))
           else
             (let (settled, sm) =
                    claude_chat (env_query env) (env_t_get env) (env_t_set env)
                      (claudeSessionManager st) req
              in (respond settled, [(ClaudeCode, req)], st\<lparr>claudeSessionManager := sm\<rparr>)))"

text \<open>\<^verbatim>\<open>app.post("/chat")\<close> of the single-backend server, which has one session
  manager and the streamed-events adapter only.\<close>

definition post_chat_single ::
  "bridge_env \<Rightarrow> sessions \<Rightarrow> chat_body
     \<Rightarrow> http_response \<times> (backend \<times> ChatRequest) list \<times> sessions" where
  "post_chat_single env sm0 body =
     (if \<not> truthy (body_conversation_id body) \<or> \<not> truthy (body_message body)
      then (bad_request, [], sm0)
      else
        let req = defaulted_request (env_cwd env) body;
            (settled, sm) =
              claude_chat (env_query env) (env_t_get env) (env_t_set env) sm0 req
        in (respond settled, [(ClaudeCode, req)], sm))"

section \<open>The caller-side client (claudecode.go)\<close>

text \<open>
  Modelled from the spec: the declarations of package \<^verbatim>\<open>llm\<close> (message roles, content
  types, request, response and usage) are not among the sources. The spec speaks of an
  ordered history of role-tagged content, a human role, text segments and an
  end-of-turn stop signal; the names are those the client refers to.
\<close>

datatype MessageRole = MessageRoleUser | MessageRoleAssistant

datatype ContentType = ContentTypeText | ContentTypeOther

datatype StopReason = StopReasonEndTurn | StopReasonToolUse

record llm_Content =
  Type :: ContentType
  Text :: string

record llm_Message =
  Role :: MessageRole
  Content :: "llm_Content list"

record llm_Request =
  Messages :: "llm_Message list"

text \<open>Token counts are \<^verbatim>\<open>uint64\<close>, in the wire struct and in \<^verbatim>\<open>llm.Usage\<close> alike.\<close>

record token_usage =
  InputTokens :: "64 word"
  OutputTokens :: "64 word"

record llm_Response =
  resp_Role :: MessageRole
  resp_Content :: "llm_Content list"
  resp_StopReason :: StopReason
  resp_Usage :: token_usage

record Service =
  BridgeURL :: string
  Model :: string

record bridgeChatRequest =
  ConversationID :: string
  Message :: string
  WorkingDir :: string
  req_Model :: string

record bridgeChatResponse =
  Result :: string
  SessionID :: string
  Usage :: token_usage
  IsError :: bool
  Compacted :: bool

definition TokenContextWindow :: int where
  "TokenContextWindow = 200000"

definition MaxImageDimension :: int where
  "MaxImageDimension = 0"

text \<open>The inner loop of \<^verbatim>\<open>extractLastUserMessage\<close>: the first text content that is not
  empty, if there is one.\<close>

fun first_text :: "llm_Content list \<Rightarrow> string option" where
  "first_text [] = None"
| "first_text (c # cs) =
     (if Type c = ContentTypeText \<and> Text c \<noteq> [] then Some (Text c) else first_text cs)"

text \<open>The outer loop, over the messages from the last to the first.\<close>

fun scan_back :: "llm_Message list \<Rightarrow> string" where
  "scan_back [] = []"
| "scan_back (msg # earlier) =
     (if Role msg \<noteq> MessageRoleUser then scan_back earlier
      else case first_text (Content msg) of
             Some t \<Rightarrow> t
           | None \<Rightarrow> scan_back earlier)"

definition extractLastUserMessage :: "llm_Message list \<Rightarrow> string" where
  "extractLastUserMessage messages = scan_back (rev messages)"

text \<open>
  What the client's surroundings decide: the conversation id held by the context (empty
  when none was set), whether \<^verbatim>\<open>http.NewRequestWithContext\<close> accepts the URL, and what
  the HTTP round trip to a URL with a request body comes to.
\<close>

datatype http_reply =
    DoFails
  | ReadFails
  | Replies nat "bridgeChatResponse option"

record client_env =
  ConversationIDFromContext :: string
  new_request_ok :: "string \<Rightarrow> bool"
  round_trip :: "string \<Rightarrow> bridgeChatRequest \<Rightarrow> http_reply"

datatype do_error =
    NoUserMessage
  | CreateRequestFailed
  | BridgeRequestFailed
  | ReadResponseFailed
  | BridgeStatus nat
  | UnmarshalFailed
  | BridgeError string

definition StatusOK :: nat where
  "StatusOK = 200"

text \<open>The tail of \<^verbatim>\<open>Do\<close>, from the decoded response on.\<close>

definition build_response :: "bridgeChatResponse \<Rightarrow> llm_Response" where
  "build_response bridgeResp =
     (let inputTokens0 = InputTokens (Usage bridgeResp);
          outputTokens0 = OutputTokens (Usage bridgeResp);
          (inputTokens1, outputTokens1) =
            (if Compacted bridgeResp then (word_of_int TokenContextWindow, 0)
             else (inputTokens0, outputTokens0))
      in \<lparr>resp_Role = MessageRoleAssistant,
          resp_Content = [\<lparr>Type = ContentTypeText, Text = Result bridgeResp\<rparr>],
          resp_StopReason = StopReasonEndTurn,
          resp_Usage = \<lparr>InputTokens = inputTokens1, OutputTokens = outputTokens1\<rparr>\<rparr>)"

text \<open>
  \<^verbatim>\<open>Service.Do\<close>. The second component lists the HTTP requests handed to the client's
  transport, each with its URL. The start and end times of the usage are left out.
\<close>

definition Do ::
  "Service \<Rightarrow> client_env \<Rightarrow> llm_Request
     \<Rightarrow> (do_error + llm_Response) \<times> (string \<times> bridgeChatRequest) list" where
  "Do s env req =
     (let userMessage = extractLastUserMessage (Messages req)
      in if userMessage = [] then (Inl NoUserMessage, [])
         else
           let conversationID =
                 (if ConversationIDFromContext env = [] then ''default''
                  else ConversationIDFromContext env);
               bridgeReq = \<lparr>ConversationID = conversationID, Message = userMessage,
                            WorkingDir = [], req_Model = Model s\<rparr>;
               url = BridgeURL s @ ''/chat''
           in if \<not> new_request_ok env url then (Inl CreateRequestFailed, [])
              else
                (case round_trip env url bridgeReq of
                   DoFails \<Rightarrow> Inl BridgeRequestFailed
                 | ReadFails \<Rightarrow> Inl ReadResponseFailed
                 | Replies code decoded \<Rightarrow>
                     if code \<noteq> StatusOK then Inl (BridgeStatus code)
                     else
                       (case decoded of
                          None \<Rightarrow> Inl UnmarshalFailed
                        | Some bridgeResp \<Rightarrow>
                            if IsError bridgeResp then Inl (BridgeError (Result bridgeResp))
                            else Inr (build_response bridgeResp)),
                 [(url, bridgeReq)]))"

section \<open>JSON between the client and the bridge\<close>

text \<open>
  A Go string is a sequence of bytes. \<^verbatim>\<open>json.Marshal\<close> writes it as UTF-8 and puts
  U+FFFD in the place of every byte that does not begin a well-formed UTF-8 sequence
  (the test of \<^verbatim>\<open>utf8.DecodeRuneInString\<close>); the escapes it writes are undone by the
  parser. \<open>rune_width\<close> is the length of the well-formed sequence a string begins with,
  and 0 when it begins with none.
\<close>

definition byte_between :: "nat \<Rightarrow> nat \<Rightarrow> char \<Rightarrow> bool" where
  "byte_between lo hi c = (lo \<le> of_char c \<and> (of_char c :: nat) \<le> hi)"

fun rune_width :: "string \<Rightarrow> nat" where
  "rune_width [] = 0"
| "rune_width (c # cs) =
     (let b = (of_char c :: nat)
      in if b < 0x80 then 1
         else if 0xC2 \<le> b \<and> b \<le> 0xDF then
           (case cs of
              c1 # rest \<Rightarrow> if byte_between 0x80 0xBF c1 then 2 else 0
            | _ \<Rightarrow> 0)
         else if 0xE0 \<le> b \<and> b \<le> 0xEF then
           (case cs of
              c1 # c2 # rest \<Rightarrow>
                if byte_between (if b = 0xE0 then 0xA0 else 0x80)
                     (if b = 0xED then 0x9F else 0xBF) c1
                   \<and> byte_between 0x80 0xBF c2
                then 3 else 0
            | _ \<Rightarrow> 0)
         else if 0xF0 \<le> b \<and> b \<le> 0xF4 then
           (case cs of
              c1 # c2 # c3 # rest \<Rightarrow>
                if byte_between (if b = 0xF0 then 0x90 else 0x80)
                     (if b = 0xF4 then 0x8F else 0xBF) c1
                   \<and> byte_between 0x80 0xBF c2 \<and> byte_between 0x80 0xBF c3
                then 4 else 0
            | _ \<Rightarrow> 0)
         else 0)"

definition replacement_character :: string where
  "replacement_character = [CHR 0xEF, CHR 0xBF, CHR 0xBD]"

text \<open>The first argument counts the bytes still to copy of a sequence found
  well-formed.\<close>

fun json_bytes :: "nat \<Rightarrow> string \<Rightarrow> string" where
  "json_bytes n [] = []"
| "json_bytes (Suc n) (c # cs) = c # json_bytes n cs"
| "json_bytes 0 (c # cs) =
     (case rune_width (c # cs) of
        0 \<Rightarrow> replacement_character @ json_bytes 0 cs
      | Suc w \<Rightarrow> c # json_bytes w cs)"

definition json_string :: "string \<Rightarrow> string" where
  "json_string str = json_bytes 0 str"

text \<open>
  \<^verbatim>\<open>json.Marshal\<close> of a \<^verbatim>\<open>bridgeChatRequest\<close> as \<^verbatim>\<open>express.json()\<close> parses it: the three
  untagged string fields are always written, \<^verbatim>\<open>model\<close> is \<^verbatim>\<open>omitempty\<close>.
\<close>

definition marshal_request :: "bridgeChatRequest \<Rightarrow> chat_body" where
  "marshal_request r =
     \<lparr>body_conversation_id = Some (json_string (ConversationID r)),
      body_message = Some (json_string (Message r)),
      body_working_dir = Some (json_string (WorkingDir r)),
      body_model = (if req_Model r = [] then None else Some (json_string (req_Model r)))\<rparr>"

text \<open>
  \<^verbatim>\<open>json.Unmarshal\<close> of what \<^verbatim>\<open>res.json\<close> wrote: a token count decodes into \<^verbatim>\<open>uint64\<close>
  when it is in range, and a missing \<^verbatim>\<open>compacted\<close> leaves the field \<^verbatim>\<open>false\<close>.
\<close>

definition unmarshal_response :: "ChatResponse \<Rightarrow> bridgeChatResponse option" where
  "unmarshal_response r =
     (if 0 \<le> input_tokens (usage r) \<and> input_tokens (usage r) < 2 ^ 64
         \<and> 0 \<le> output_tokens (usage r) \<and> output_tokens (usage r) < 2 ^ 64
      then Some \<lparr>Result = result r, SessionID = session_id r,
                 Usage = \<lparr>InputTokens = word_of_int (input_tokens (usage r)),
                          OutputTokens = word_of_int (output_tokens (usage r))\<rparr>,
                 IsError = is_error r,
                 Compacted = (case compacted r of Some b \<Rightarrow> b | None \<Rightarrow> False)\<rparr>
      else None)"

section \<open>Notions of the specification\<close>

text \<open>
  The handle a turn has freshly captured from the messages seen so far: the session id
  of the latest initialization message that carries a non-empty one, and empty when
  there was none.
\<close>

definition init_handles :: "sdk_message list \<Rightarrow> string list" where
  "init_handles msgs =
     map (\<lambda>m. string_of (msg_session_id m))
       (filter (\<lambda>m. msg_type m = ''system'' \<and> msg_subtype m = Some ''init''
                      \<and> truthy (msg_session_id m)) msgs)"

definition captured_handle :: "sdk_message list \<Rightarrow> string" where
  "captured_handle msgs = (if init_handles msgs = [] then [] else last (init_handles msgs))"

text \<open>The invariant of a session table: no stored handle is empty.\<close>

definition handles_nonempty :: "sessions \<Rightarrow> bool" where
  "handles_nonempty m = list_all (\<lambda>(k, i). sessionId i \<noteq> []) m"

text \<open>
  The reading of the conversation history in the specification's words: the messages
  of the human role, the text segments of a message (its text contents that are not
  empty), the text of a message (its first text segment, empty when it has none), and
  the human messages that have a text segment.
\<close>

definition user_messages :: "llm_Message list \<Rightarrow> llm_Message list" where
  "user_messages msgs = filter (\<lambda>m. Role m = MessageRoleUser) msgs"

definition text_segments :: "llm_Message \<Rightarrow> string list" where
  "text_segments m =
     map Text (filter (\<lambda>c. Type c = ContentTypeText \<and> Text c \<noteq> []) (Content m))"

definition message_text :: "llm_Message \<Rightarrow> string" where
  "message_text m = (case text_segments m of [] \<Rightarrow> [] | t # ts \<Rightarrow> t)"

definition user_text_messages :: "llm_Message list \<Rightarrow> llm_Message list" where
  "user_text_messages msgs =
     filter (\<lambda>m. Role m = MessageRoleUser \<and> text_segments m \<noteq> []) msgs"

section \<open>Concrete tables, backends, requests and histories\<close>

text \<open>A table of three sessions, used in the concrete instances below.\<close>

definition example_sessions :: sessions where
  "example_sessions =
     [(''c1'', \<lparr>sessionId = ''s1'', lastActivity = 0\<rparr>),
      (''c2'', \<lparr>sessionId = ''s2'', lastActivity = 200000\<rparr>),
      (''c3'', \<lparr>sessionId = ''s3'', lastActivity = 100000\<rparr>)]"

definition hello_request :: ChatRequest where
  "hello_request =
     \<lparr>conversation_id = ''c1'', message = ''Hello'', working_dir = ''/tmp'', model = None\<rparr>"

definition init_message :: "string \<Rightarrow> sdk_message" where
  "init_message sid =
     \<lparr>msg_type = ''system'', msg_subtype = Some ''init'', msg_session_id = Some sid,
      msg_result = None, msg_input_tokens = None, msg_output_tokens = None\<rparr>"

definition result_message :: "string \<Rightarrow> sdk_message" where
  "result_message txt =
     \<lparr>msg_type = ''result'', msg_subtype = Some ''success'', msg_session_id = None,
      msg_result = Some txt, msg_input_tokens = None, msg_output_tokens = None\<rparr>"

text \<open>A stream that announces session \<^verbatim>\<open>s9\<close> and then throws an \<^verbatim>\<open>Error\<close>.\<close>

definition rate_limited_sdk :: claude_sdk where
  "rate_limited_sdk prompt options = ([init_message ''s9''], Some (ErrorObject ''rate limited''))"

text \<open>A stream that ends well with a result and never announces a session.\<close>

definition quiet_sdk :: claude_sdk where
  "quiet_sdk prompt options = ([result_message ''Hi there!''], None)"

text \<open>A stream that announces session \<^verbatim>\<open>s1\<close> and ends well with a result.\<close>

definition friendly_sdk :: claude_sdk where
  "friendly_sdk prompt options = ([init_message ''s1'', result_message ''Hi there!''], None)"

text \<open>A Codex SDK whose threads throw a value that is no \<^verbatim>\<open>Error\<close> when run.\<close>

definition broken_thread :: codex_thread where
  "broken_thread = \<lparr>thread_run = (\<lambda>input. Inl OtherValue), thread_id = None\<rparr>"

definition broken_codex :: codex_sdk where
  "broken_codex =
     \<lparr>resumeThread = (\<lambda>h. Inr broken_thread), startThread = (\<lambda>dir. Inr broken_thread)\<rparr>"

text \<open>A Codex SDK whose threads answer and report \<^verbatim>\<open>t1\<close> as their id.\<close>

definition friendly_thread :: codex_thread where
  "friendly_thread =
     \<lparr>thread_run = (\<lambda>input. Inr \<lparr>finalResponse = ''Done.'',
                                 turn_usage = Some \<lparr>input_tokens = 120, output_tokens = 30\<rparr>\<rparr>),
      thread_id = Some ''t1''\<rparr>"

definition friendly_codex :: codex_sdk where
  "friendly_codex =
     \<lparr>resumeThread = (\<lambda>h. Inr friendly_thread), startThread = (\<lambda>dir. Inr friendly_thread)\<rparr>"

text \<open>Two environments of the bridge, one with the failing backends and one whose
  Codex backend answers, and a state of its two session tables.\<close>

definition example_env :: bridge_env where
  "example_env =
     \<lparr>env_query = rate_limited_sdk, env_codex = broken_codex, env_cwd = ''/srv/bridge'',
      env_t_get = 5, env_t_set = 6\<rparr>"

definition codex_env :: bridge_env where
  "codex_env =
     \<lparr>env_query = quiet_sdk, env_codex = friendly_codex, env_cwd = ''/srv/bridge'',
      env_t_get = 5, env_t_set = 6\<rparr>"

definition example_state :: bridge_state where
  "example_state = \<lparr>claudeSessionManager = example_sessions, codexSessionManager = []\<rparr>"

text \<open>A body without a message.\<close>

definition no_message_body :: chat_body where
  "no_message_body =
     \<lparr>body_conversation_id = Some ''c1'', body_message = None, body_working_dir = None,
      body_model = Some ''codex''\<rparr>"

text \<open>A body as the client sends it, routed to the thread-based adapter.\<close>

definition codex_body :: chat_body where
  "codex_body =
     \<lparr>body_conversation_id = Some ''c1'', body_message = Some ''Hello'',
      body_working_dir = Some [], body_model = Some ''codex''\<rparr>"

text \<open>Messages and a history whose latest message of the human role has no text.\<close>

definition user_says :: "string \<Rightarrow> llm_Message" where
  "user_says t = \<lparr>Role = MessageRoleUser, Content = [\<lparr>Type = ContentTypeText, Text = t\<rparr>]\<rparr>"

definition user_attachment :: llm_Message where
  "user_attachment =
     \<lparr>Role = MessageRoleUser, Content = [\<lparr>Type = ContentTypeOther, Text = []\<rparr>]\<rparr>"

definition assistant_says :: "string \<Rightarrow> llm_Message" where
  "assistant_says t =
     \<lparr>Role = MessageRoleAssistant, Content = [\<lparr>Type = ContentTypeText, Text = t\<rparr>]\<rparr>"

definition attachment_history :: "llm_Message list" where
  "attachment_history = [user_says ''first'', assistant_says ''response'', user_attachment]"

definition example_service :: Service where
  "example_service = \<lparr>BridgeURL = ''http://localhost:9100'', Model = ''codex''\<rparr>"

text \<open>A bridge that answers every request with a compacted turn.\<close>

definition compacted_reply :: bridgeChatResponse where
  "compacted_reply =
     \<lparr>Result = ''Hi there!'', SessionID = ''s1'',
      Usage = \<lparr>InputTokens = 100, OutputTokens = 50\<rparr>,
      IsError = False, Compacted = True\<rparr>"

definition compacting_bridge :: client_env where
  "compacting_bridge =
     \<lparr>ConversationIDFromContext = ''c1'', new_request_ok = (\<lambda>url. True),
      round_trip = (\<lambda>url r. Replies 200 (Some compacted_reply))\<rparr>"

text \<open>A client whose round trip is the multi-backend handler run in that environment
  on the example state.\<close>

definition codex_bridge :: client_env where
  "codex_bridge =
     \<lparr>ConversationIDFromContext = ''c1'', new_request_ok = (\<lambda>url. True),
      round_trip = (\<lambda>url r.
        Replies (status (fst (post_chat codex_env example_state (marshal_request r))))
          (unmarshal_response
             (json (fst (post_chat codex_env example_state (marshal_request r))))))\<rparr>"

text \<open>Backends that answer with the directory they were given: the stream with the
  \<^verbatim>\<open>cwd\<close> option of the call, the thread with the directory it was started in.\<close>

definition cwd_option :: "query_options \<Rightarrow> string" where
  "cwd_option options =
     (case options ''cwd'' of Some (StringValue dir) \<Rightarrow> dir | _ \<Rightarrow> ''(no cwd)'')"

definition echo_sdk :: claude_sdk where
  "echo_sdk prompt options = ([init_message ''s1'', result_message (cwd_option options)], None)"

definition echo_thread :: "string \<Rightarrow> codex_thread" where
  "echo_thread dir =
     \<lparr>thread_run = (\<lambda>input. Inr \<lparr>finalResponse = dir, turn_usage = None\<rparr>),
      thread_id = Some ''t1''\<rparr>"

definition echo_codex :: codex_sdk where
  "echo_codex =
     \<lparr>resumeThread = (\<lambda>h. Inr (echo_thread ''(resumed)'')),
      startThread = (\<lambda>dir. Inr (echo_thread dir))\<rparr>"

definition echo_env :: bridge_env where
  "echo_env =
     \<lparr>env_query = echo_sdk, env_codex = echo_codex, env_cwd = ''/srv/bridge'',
      env_t_get = 5, env_t_set = 6\<rparr>"

section \<open>Properties of the session table\<close>

lemma delete_unvisited:
  assumes "k \<notin> fst ` set pre" "k \<notin> fst ` set rest"
  shows "AList.delete k (pre @ (k, v) # rest) = pre @ rest"
proof -
  have "AList.delete k pre = pre" "AList.delete k rest = rest"
    using assms by simp_all
  then show ?thesis by (simp add: AList.delete_eq)
qed

lemma cleanup_loop_filter:
  assumes "distinct (map fst (pre @ todo))"
  shows "cleanup_loop now todo (pre @ todo) r =
           (pre @ filter (\<lambda>(k, i). \<not> now - lastActivity i > IDLE_TIMEOUT_MS) todo,
            r + length (filter (\<lambda>(k, i). now - lastActivity i > IDLE_TIMEOUT_MS) todo))"
  using assms
proof (induction todo arbitrary: pre r)
  case Nil
  then show ?case by simp
next
  case (Cons e todo)
  obtain k i where e: "e = (k, i)" by (cases e)
  show ?case
  proof (cases "now - lastActivity i > IDLE_TIMEOUT_MS")
    case True
    have notin: "k \<notin> fst ` set pre" "k \<notin> fst ` set todo"
      using Cons.prems e by auto
    have d: "distinct (map fst (pre @ todo))"
      using Cons.prems e by auto
    show ?thesis
      using True e Cons.IH [OF d] delete_unvisited [OF notin] by simp
  next
    case False
    have d: "distinct (map fst ((pre @ [e]) @ todo))"
      using Cons.prems by simp
    show ?thesis
      using False e Cons.IH [OF d] by simp
  qed
qed

lemma cleanup_filter:
  assumes "distinct (map fst m)"
  shows "cleanup now m =
           (filter (\<lambda>(k, i). \<not> now - lastActivity i > IDLE_TIMEOUT_MS) m,
            length (filter (\<lambda>(k, i). now - lastActivity i > IDLE_TIMEOUT_MS) m))"
  using cleanup_loop_filter [of "[]" m now 0] assms by (simp add: cleanup_def)

lemma map_of_filter_distinct:
  assumes "distinct (map fst m)"
  shows "map_of (filter (\<lambda>(k, i). P i) m) k =
           (case map_of m k of None \<Rightarrow> None | Some i \<Rightarrow> if P i then Some i else None)"
  using assms
proof (induction m)
  case Nil
  then show ?case by simp
next
  case (Cons e m)
  obtain k' i' where e: "e = (k', i')" by (cases e)
  have absent: "map_of m k' = None"
    using Cons.prems e by (simp add: map_of_eq_None_iff)
  show ?case
    using Cons e absent by (auto split: option.splits)
qed

lemma distinct_get:
  "distinct (map fst m) \<Longrightarrow> distinct (map fst (snd (SessionManager_get now c m)))"
  by (simp add: SessionManager_get_def distinct_update split: option.splits)

lemma distinct_set:
  "distinct (map fst m) \<Longrightarrow> distinct (map fst (SessionManager_set now c s m))"
  by (simp add: SessionManager_set_def distinct_update)

lemma distinct_delete_sessions:
  "distinct (map fst m) \<Longrightarrow> distinct (map fst (snd (SessionManager_delete c m)))"
  by (simp add: SessionManager_delete_def distinct_delete)

lemma distinct_cleanup:
  "distinct (map fst m) \<Longrightarrow> distinct (map fst (fst (cleanup now m)))"
  by (simp add: cleanup_filter distinct_map_filter)

text \<open>
  C5. For every session table and every sweep time, \<^verbatim>\<open>cleanup\<close> (the spec's sweepIdle,
  with the fixed 30 minute threshold) removes exactly the entries whose last activity
  lies more than the threshold before the sweep time, keeps every other entry as it
  was and in its place, and returns the number of entries it removed.
\<close>

theorem cleanup_removes_exactly_idle:
  assumes "distinct (map fst m)"
  shows "fst (cleanup now m) =
           filter (\<lambda>(k, i). \<not> now - lastActivity i > IDLE_TIMEOUT_MS) m
       \<and> (\<forall>k. map_of (fst (cleanup now m)) k =
             (case map_of m k of
                None \<Rightarrow> None
              | Some i \<Rightarrow> if now - lastActivity i > IDLE_TIMEOUT_MS then None else Some i))
       \<and> snd (cleanup now m) =
           length (filter (\<lambda>(k, i). now - lastActivity i > IDLE_TIMEOUT_MS) m)
       \<and> snd (cleanup now m) = length m - length (fst (cleanup now m))"
proof -
  let ?idle = "\<lambda>i. now - lastActivity i > IDLE_TIMEOUT_MS"
  have c: "cleanup now m =
      (filter (\<lambda>(k, i). \<not> ?idle i) m, length (filter (\<lambda>(k, i). ?idle i) m))"
    by (rule cleanup_filter [OF assms])
  have look: "\<forall>k. map_of (filter (\<lambda>(k, i). \<not> ?idle i) m) k =
      (case map_of m k of None \<Rightarrow> None | Some i \<Rightarrow> if ?idle i then None else Some i)"
    using map_of_filter_distinct [OF assms, of "\<lambda>i. \<not> ?idle i"]
    by (simp split: option.splits)
  have "length (filter (\<lambda>(k, i). ?idle i) m) + length (filter (\<lambda>(k, i). \<not> ?idle i) m)
          = length m"
    using sum_length_filter_compl [of "\<lambda>(k, i). ?idle i" m]
    by (simp add: case_prod_unfold)
  then have cnt: "length (filter (\<lambda>(k, i). ?idle i) m) =
      length m - length (filter (\<lambda>(k, i). \<not> ?idle i) m)"
    by simp
  show ?thesis
    using c look cnt by simp
qed

theorem cleanup_removes_exactly_idle_witness:
  "distinct (map fst example_sessions)
   \<and> cleanup 1900000 example_sessions =
       ([(''c2'', \<lparr>sessionId = ''s2'', lastActivity = 200000\<rparr>),
         (''c3'', \<lparr>sessionId = ''s3'', lastActivity = 100000\<rparr>)], 1)
   \<and> map_of (fst (cleanup 1900000 example_sessions)) ''c1'' = None
   \<and> map_of (fst (cleanup 1900000 example_sessions)) ''c3''
       = Some \<lparr>sessionId = ''s3'', lastActivity = 100000\<rparr>"
proof -
  have d: "distinct (map fst example_sessions)"
    by (simp add: example_sessions_def)
  note t = cleanup_removes_exactly_idle [OF d, of 1900000]
  have f: "filter (\<lambda>(k, i). \<not> 1900000 - lastActivity i > IDLE_TIMEOUT_MS) example_sessions
      = [(''c2'', \<lparr>sessionId = ''s2'', lastActivity = 200000\<rparr>),
         (''c3'', \<lparr>sessionId = ''s3'', lastActivity = 100000\<rparr>)]"
    by (simp add: example_sessions_def IDLE_TIMEOUT_MS_def)
  have a: "fst (cleanup 1900000 example_sessions)
      = [(''c2'', \<lparr>sessionId = ''s2'', lastActivity = 200000\<rparr>),
         (''c3'', \<lparr>sessionId = ''s3'', lastActivity = 100000\<rparr>)]"
    using t f by simp
  have "snd (cleanup 1900000 example_sessions)
      = length example_sessions - length (fst (cleanup 1900000 example_sessions))"
    using t by blast
  then have b: "snd (cleanup 1900000 example_sessions) = 1"
    unfolding a by (simp add: example_sessions_def)
  show ?thesis
    using d a b by (simp add: prod_eq_iff)
qed

lemma get_absent: "map_of m c = None \<Longrightarrow> SessionManager_get now c m = (None, m)"
  by (simp add: SessionManager_get_def)

lemma get_present:
  "map_of m c = Some info \<Longrightarrow>
     SessionManager_get now c m =
       (Some (sessionId info), AList.update c (info\<lparr>lastActivity := now\<rparr>) m)"
  by (simp add: SessionManager_get_def)

lemma cleanup_keeps_recent:
  assumes "distinct (map fst m)" "map_of m c = Some info" "later - lastActivity info \<le> IDLE_TIMEOUT_MS"
  shows "map_of (fst (cleanup later m)) c = Some info"
  using assms map_of_filter_distinct [OF assms(1), of "\<lambda>i. \<not> later - lastActivity i > IDLE_TIMEOUT_MS" c]
  by (simp add: cleanup_filter)

lemma cleanup_drops_idle:
  assumes "distinct (map fst m)" "map_of m c = Some info" "later - lastActivity info > IDLE_TIMEOUT_MS"
  shows "map_of (fst (cleanup later m)) c = None"
  using assms map_of_filter_distinct [OF assms(1), of "\<lambda>i. \<not> later - lastActivity i > IDLE_TIMEOUT_MS" c]
  by (simp add: cleanup_filter)

text \<open>
  C6. \<^verbatim>\<open>get\<close> returns the absent value and changes nothing when the id has no entry;
  otherwise it returns the stored handle and sets the entry's last activity to the
  current time, leaving the handle and every other entry alone. After a lookup or a
  write at time \<open>now\<close>, a sweep at a later time removes the entry exactly when more than
  the idle threshold has passed since \<open>now\<close>.
\<close>

theorem get_is_activity:
  assumes "distinct (map fst m)"
  shows "(map_of m c = None \<longrightarrow> SessionManager_get now c m = (None, m))
       \<and> (\<forall>info. map_of m c = Some info \<longrightarrow>
            fst (SessionManager_get now c m) = Some (sessionId info)
          \<and> map_of (snd (SessionManager_get now c m))
              = (map_of m)(c \<mapsto> \<lparr>sessionId = sessionId info, lastActivity = now\<rparr>)
          \<and> (\<forall>later. map_of (fst (cleanup later (snd (SessionManager_get now c m)))) c =
                (if later - now > IDLE_TIMEOUT_MS then None
                 else Some \<lparr>sessionId = sessionId info, lastActivity = now\<rparr>)))
       \<and> (\<forall>h later. map_of (fst (cleanup later (SessionManager_set now c h m))) c =
                (if later - now > IDLE_TIMEOUT_MS then None
                 else Some \<lparr>sessionId = h, lastActivity = now\<rparr>))"
proof (intro conjI allI impI)
  assume "map_of m c = None"
  then show "SessionManager_get now c m = (None, m)" by (rule get_absent)
next
  fix info assume p: "map_of m c = Some info"
  show "fst (SessionManager_get now c m) = Some (sessionId info)"
    by (simp add: get_present [OF p])
  have upd: "snd (SessionManager_get now c m) = AList.update c (info\<lparr>lastActivity := now\<rparr>) m"
    by (simp add: get_present [OF p])
  have rec: "info\<lparr>lastActivity := now\<rparr> = \<lparr>sessionId = sessionId info, lastActivity = now\<rparr>"
    by simp
  show "map_of (snd (SessionManager_get now c m))
      = (map_of m)(c \<mapsto> \<lparr>sessionId = sessionId info, lastActivity = now\<rparr>)"
    unfolding upd rec by (rule update_conv')
  fix later
  let ?m' = "snd (SessionManager_get now c m)"
  have d: "distinct (map fst ?m')" by (rule distinct_get [OF assms])
  have l: "map_of ?m' c = Some \<lparr>sessionId = sessionId info, lastActivity = now\<rparr>"
    unfolding upd rec by (simp add: update_conv')
  show "map_of (fst (cleanup later ?m')) c =
      (if later - now > IDLE_TIMEOUT_MS then None
       else Some \<lparr>sessionId = sessionId info, lastActivity = now\<rparr>)"
    using cleanup_keeps_recent [OF d l, of later] cleanup_drops_idle [OF d l, of later]
    by simp
next
  fix h later
  let ?m' = "SessionManager_set now c h m"
  have d: "distinct (map fst ?m')" by (rule distinct_set [OF assms])
  have l: "map_of ?m' c = Some \<lparr>sessionId = h, lastActivity = now\<rparr>"
    by (simp add: SessionManager_set_def update_conv')
  show "map_of (fst (cleanup later ?m')) c =
      (if later - now > IDLE_TIMEOUT_MS then None
       else Some \<lparr>sessionId = h, lastActivity = now\<rparr>)"
    using cleanup_keeps_recent [OF d l, of later] cleanup_drops_idle [OF d l, of later]
    by simp
qed

theorem get_is_activity_witness:
  "distinct (map fst example_sessions)
   \<and> map_of example_sessions ''c9'' = None
   \<and> SessionManager_get 1900000 ''c9'' example_sessions = (None, example_sessions)
   \<and> map_of example_sessions ''c1'' = Some \<lparr>sessionId = ''s1'', lastActivity = 0\<rparr>
   \<and> fst (SessionManager_get 1900000 ''c1'' example_sessions) = Some ''s1''
   \<and> map_of (fst (cleanup 1900001 (snd (SessionManager_get 1900000 ''c1'' example_sessions)))) ''c1''
       = Some \<lparr>sessionId = ''s1'', lastActivity = 1900000\<rparr>"
proof -
  have d: "distinct (map fst example_sessions)"
    by (simp add: example_sessions_def)
  have a: "map_of example_sessions ''c9'' = None"
    by (simp add: example_sessions_def)
  have p: "map_of example_sessions ''c1'' = Some \<lparr>sessionId = ''s1'', lastActivity = 0\<rparr>"
    by (simp add: example_sessions_def)
  show ?thesis
    using d a p get_is_activity [OF d, of "''c9''" 1900000]
      get_is_activity [OF d, of "''c1''" 1900000]
    by (simp add: IDLE_TIMEOUT_MS_def)
qed

section \<open>Error isolation in the adapters\<close>

lemma on_message_sessionIdVar:
  "sessionIdVar (on_message v m) =
     (if msg_type m = ''system'' \<and> msg_subtype m = Some ''init'' \<and> truthy (msg_session_id m)
      then string_of (msg_session_id m) else sessionIdVar v)"
  by (simp add: on_message_def Let_def truthy_def string_of_def split: option.splits)

lemma foldl_on_message_sessionIdVar:
  "sessionIdVar (foldl on_message v msgs) =
     (if init_handles msgs = [] then sessionIdVar v else last (init_handles msgs))"
proof (induction msgs rule: rev_induct)
  case Nil
  then show ?case by (simp add: init_handles_def)
next
  case (snoc m msgs)
  then show ?case
    by (simp add: on_message_sessionIdVar init_handles_def)
qed

lemma captured_by_loop: "sessionIdVar (foldl on_message claude_initial msgs) = captured_handle msgs"
  by (simp add: foldl_on_message_sessionIdVar captured_handle_def claude_initial_def)

lemma claude_chat_settles: "\<exists>r. fst (claude_chat query t_get t_set sm req) = Inr r"
  by (simp add: claude_chat_def Let_def case_prod_beta split: option.splits)

lemma codex_chat_settles: "\<exists>r. fst (codex_chat codex cwd t_get t_set sm req) = Inr r"
  by (simp add: codex_chat_def Let_def case_prod_beta split: sum.splits)

lemma claude_chat_thrown:
  assumes "query (message req)
             (claude_query_options req (fst (SessionManager_get t_get (conversation_id req) sm)))
           = (msgs, Some err)"
  shows "claude_chat query t_get t_set sm req =
           (Inr \<lparr>result = thrown_text ''Unknown error from Claude Code'' err,
                 session_id = best_handle (captured_handle msgs)
                                (fst (SessionManager_get t_get (conversation_id req) sm)),
                 usage = \<lparr>input_tokens = inputTokens (foldl on_message claude_initial msgs),
                          output_tokens = outputTokens (foldl on_message claude_initial msgs)\<rparr>,
                 is_error = True,
                 compacted = (if compactedVar (foldl on_message claude_initial msgs)
                              then Some True else None)\<rparr>,
            snd (SessionManager_get t_get (conversation_id req) sm))"
  using assms
  by (simp add: claude_chat_def Let_def case_prod_beta claude_response_def captured_by_loop)

lemma codex_chat_thrown:
  assumes "codex_open_thread codex cwd req (fst (SessionManager_get t_get (conversation_id req) sm))
             = Inl err
         \<or> (\<exists>thread. codex_open_thread codex cwd req
                        (fst (SessionManager_get t_get (conversation_id req) sm)) = Inr thread
               \<and> thread_run thread (message req) = Inl err)"
  shows "codex_chat codex cwd t_get t_set sm req =
           (Inr \<lparr>result = thrown_text ''Unknown error from Codex'' err,
                 session_id = best_handle [] (fst (SessionManager_get t_get (conversation_id req) sm)),
                 usage = \<lparr>input_tokens = 0, output_tokens = 0\<rparr>,
                 is_error = True,
                 compacted = None\<rparr>,
            snd (SessionManager_get t_get (conversation_id req) sm))"
  using assms
  by (auto simp: codex_chat_def Let_def case_prod_beta codex_failed_def codex_response_def
        codex_initial_def)

text \<open>
  C1. Whatever the backend does, both adapters' \<^verbatim>\<open>chat\<close> settle to a response and never
  throw. When the stream of the streamed-events backend throws (at once, or after some
  messages), the response is error-flagged, its text is the message of the thrown
  \<^verbatim>\<open>Error\<close> or the generic fallback for any other thrown value, and its session handle
  is the handle captured from the messages before the throw if there is one, else the
  handle looked up at the start, else empty. When starting, resuming or running a thread
  of the thread-based backend throws, the same holds with no captured handle.
\<close>

theorem chat_error_isolation:
  "(\<exists>r. fst (claude_chat query t_get t_set sm req) = Inr r)
   \<and> (\<exists>r. fst (codex_chat codex cwd t_get t_set sm req) = Inr r)
   \<and> (\<forall>msgs err.
         query (message req)
           (claude_query_options req (fst (SessionManager_get t_get (conversation_id req) sm)))
           = (msgs, Some err) \<longrightarrow>
         (\<exists>r. fst (claude_chat query t_get t_set sm req) = Inr r
            \<and> is_error r
            \<and> result r = (case err of ErrorObject m \<Rightarrow> m
                           | OtherValue \<Rightarrow> ''Unknown error from Claude Code'')
            \<and> session_id r =
                (if captured_handle msgs \<noteq> [] then captured_handle msgs
                 else case fst (SessionManager_get t_get (conversation_id req) sm) of
                        Some h \<Rightarrow> h | None \<Rightarrow> [])))
   \<and> (\<forall>err.
         (codex_open_thread codex cwd req (fst (SessionManager_get t_get (conversation_id req) sm))
            = Inl err
          \<or> (\<exists>thread. codex_open_thread codex cwd req
                         (fst (SessionManager_get t_get (conversation_id req) sm)) = Inr thread
                \<and> thread_run thread (message req) = Inl err)) \<longrightarrow>
         (\<exists>r. fst (codex_chat codex cwd t_get t_set sm req) = Inr r
            \<and> is_error r
            \<and> result r = (case err of ErrorObject m \<Rightarrow> m
                           | OtherValue \<Rightarrow> ''Unknown error from Codex'')
            \<and> session_id r =
                (case fst (SessionManager_get t_get (conversation_id req) sm) of
                   Some h \<Rightarrow> h | None \<Rightarrow> [])))"
proof (intro conjI allI impI)
  show "\<exists>r. fst (claude_chat query t_get t_set sm req) = Inr r"
    by (rule claude_chat_settles)
  show "\<exists>r. fst (codex_chat codex cwd t_get t_set sm req) = Inr r"
    by (rule codex_chat_settles)
next
  fix msgs err
  assume "query (message req)
           (claude_query_options req (fst (SessionManager_get t_get (conversation_id req) sm)))
           = (msgs, Some err)"
  from claude_chat_thrown [where query = query and t_set = t_set, OF this]
  show "\<exists>r. fst (claude_chat query t_get t_set sm req) = Inr r
            \<and> is_error r
            \<and> result r = (case err of ErrorObject m \<Rightarrow> m
                           | OtherValue \<Rightarrow> ''Unknown error from Claude Code'')
            \<and> session_id r =
                (if captured_handle msgs \<noteq> [] then captured_handle msgs
                 else case fst (SessionManager_get t_get (conversation_id req) sm) of
                        Some h \<Rightarrow> h | None \<Rightarrow> [])"
    by (simp add: thrown_text_def best_handle_def)
next
  fix err
  assume "codex_open_thread codex cwd req (fst (SessionManager_get t_get (conversation_id req) sm))
            = Inl err
          \<or> (\<exists>thread. codex_open_thread codex cwd req
                         (fst (SessionManager_get t_get (conversation_id req) sm)) = Inr thread
                \<and> thread_run thread (message req) = Inl err)"
  from codex_chat_thrown [where t_set = t_set, OF this]
  show "\<exists>r. fst (codex_chat codex cwd t_get t_set sm req) = Inr r
            \<and> is_error r
            \<and> result r = (case err of ErrorObject m \<Rightarrow> m
                           | OtherValue \<Rightarrow> ''Unknown error from Codex'')
            \<and> session_id r =
                (case fst (SessionManager_get t_get (conversation_id req) sm) of
                   Some h \<Rightarrow> h | None \<Rightarrow> [])"
    by (simp add: thrown_text_def best_handle_def)
qed

theorem chat_error_isolation_witness:
  "rate_limited_sdk (message hello_request)
       (claude_query_options hello_request
          (fst (SessionManager_get 5 (conversation_id hello_request) example_sessions)))
     = ([init_message ''s9''], Some (ErrorObject ''rate limited''))
   \<and> (\<exists>r. fst (claude_chat rate_limited_sdk 5 6 example_sessions hello_request) = Inr r
          \<and> is_error r \<and> result r = ''rate limited'' \<and> session_id r = ''s9'')
   \<and> codex_open_thread broken_codex ''/srv/bridge'' hello_request
         (fst (SessionManager_get 5 (conversation_id hello_request) example_sessions))
       = Inr broken_thread
   \<and> thread_run broken_thread (message hello_request) = Inl OtherValue
   \<and> (\<exists>r. fst (codex_chat broken_codex ''/srv/bridge'' 5 6 example_sessions hello_request) = Inr r
          \<and> is_error r \<and> result r = ''Unknown error from Codex'' \<and> session_id r = ''s1'')"
proof -
  note t = chat_error_isolation [where query = rate_limited_sdk and t_get = 5 and t_set = 6
      and sm = example_sessions and req = hello_request and codex = broken_codex
      and cwd = "''/srv/bridge''"]
  have g: "fst (SessionManager_get 5 (conversation_id hello_request) example_sessions) = Some ''s1''"
    by (simp add: SessionManager_get_def hello_request_def example_sessions_def)
  have h1: "rate_limited_sdk (message hello_request)
       (claude_query_options hello_request
          (fst (SessionManager_get 5 (conversation_id hello_request) example_sessions)))
     = ([init_message ''s9''], Some (ErrorObject ''rate limited''))"
    by (simp add: rate_limited_sdk_def)
  have c: "captured_handle [init_message ''s9''] = ''s9''"
    by (simp add: captured_handle_def init_handles_def init_message_def truthy_def string_of_def)
  have o: "codex_open_thread broken_codex ''/srv/bridge'' hello_request
         (fst (SessionManager_get 5 (conversation_id hello_request) example_sessions))
       = Inr broken_thread"
    unfolding g by (simp add: codex_open_thread_def broken_codex_def)
  have r: "thread_run broken_thread (message hello_request) = Inl OtherValue"
    by (simp add: broken_thread_def)
  from t have "\<exists>r. fst (claude_chat rate_limited_sdk 5 6 example_sessions hello_request) = Inr r
        \<and> is_error r
        \<and> result r = (case ErrorObject ''rate limited'' of ErrorObject m \<Rightarrow> m
                       | OtherValue \<Rightarrow> ''Unknown error from Claude Code'')
        \<and> session_id r =
            (if captured_handle [init_message ''s9''] \<noteq> [] then captured_handle [init_message ''s9'']
             else case fst (SessionManager_get 5 (conversation_id hello_request) example_sessions) of
                    Some h \<Rightarrow> h | None \<Rightarrow> [])"
    using h1 by blast
  then have a: "\<exists>r. fst (claude_chat rate_limited_sdk 5 6 example_sessions hello_request) = Inr r
          \<and> is_error r \<and> result r = ''rate limited'' \<and> session_id r = ''s9''"
    by (simp add: c)
  from t have "\<exists>r. fst (codex_chat broken_codex ''/srv/bridge'' 5 6 example_sessions hello_request) = Inr r
        \<and> is_error r
        \<and> result r = (case OtherValue of ErrorObject m \<Rightarrow> m
                       | OtherValue \<Rightarrow> ''Unknown error from Codex'')
        \<and> session_id r =
            (case fst (SessionManager_get 5 (conversation_id hello_request) example_sessions) of
               Some h \<Rightarrow> h | None \<Rightarrow> [])"
    using o r by blast
  then have b: "\<exists>r. fst (codex_chat broken_codex ''/srv/bridge'' 5 6 example_sessions hello_request) = Inr r
          \<and> is_error r \<and> result r = ''Unknown error from Codex'' \<and> session_id r = ''s1''"
    by (simp add: g)
  show ?thesis
    using h1 a o r b by blast
qed

section \<open>Request validation in the bridge service\<close>

text \<open>
  C2. A chat request whose \<^verbatim>\<open>conversation_id\<close> or \<^verbatim>\<open>message\<close> is missing or empty is
  answered, by the multi-backend and by the single-backend server alike, with status
  400 and an error-flagged response of empty result, empty session id and zero usage;
  no adapter \<^verbatim>\<open>chat\<close> is called and the session tables stay as they were.
\<close>

theorem missing_field_rejected:
  assumes "body_conversation_id body = None \<or> body_conversation_id body = Some []
         \<or> body_message body = None \<or> body_message body = Some []"
  shows "post_chat env st body =
           (\<lparr>status = 400,
             json = \<lparr>result = [], session_id = [],
                     usage = \<lparr>input_tokens = 0, output_tokens = 0\<rparr>,
                     is_error = True, compacted = None\<rparr>\<rparr>, [], st)
       \<and> post_chat_single env sm body =
           (\<lparr>status = 400,
             json = \<lparr>result = [], session_id = [],
                     usage = \<lparr>input_tokens = 0, output_tokens = 0\<rparr>,
                     is_error = True, compacted = None\<rparr>\<rparr>, [], sm)"
proof -
  have "\<not> truthy (body_conversation_id body) \<or> \<not> truthy (body_message body)"
    using assms by (auto simp: truthy_def)
  then show ?thesis
    by (simp add: post_chat_def post_chat_single_def bad_request_def)
qed

theorem missing_field_rejected_witness:
  "body_message no_message_body = None
   \<and> post_chat example_env example_state no_message_body =
       (\<lparr>status = 400,
         json = \<lparr>result = [], session_id = [],
                 usage = \<lparr>input_tokens = 0, output_tokens = 0\<rparr>,
                 is_error = True, compacted = None\<rparr>\<rparr>, [], example_state)
   \<and> post_chat_single example_env example_sessions no_message_body =
       (\<lparr>status = 400,
         json = \<lparr>result = [], session_id = [],
                 usage = \<lparr>input_tokens = 0, output_tokens = 0\<rparr>,
                 is_error = True, compacted = None\<rparr>\<rparr>, [], example_sessions)"
proof -
  have h: "body_message no_message_body = None"
    by (simp add: no_message_body_def)
  then have "body_conversation_id no_message_body = None
      \<or> body_conversation_id no_message_body = Some []
      \<or> body_message no_message_body = None \<or> body_message no_message_body = Some []"
    by simp
  from missing_field_rejected [OF this, of example_env example_state example_sessions] h
  show ?thesis by simp
qed

section \<open>The model selector and the streamed-events adapter\<close>

lemma claude_query_options_model:
  "claude_query_options (req\<lparr>model := m\<rparr>) existing = claude_query_options req existing"
  by (simp add: claude_query_options_def Let_def split: option.splits)

lemma claude_chat_model:
  "claude_chat query t_get t_set sm (req\<lparr>model := m\<rparr>) = claude_chat query t_get t_set sm req"
  by (simp add: claude_chat_def Let_def case_prod_beta claude_query_options_model
        split: option.splits)

lemma dom_claude_query_options:
  "dom (claude_query_options req existing)
     \<subseteq> {''allowedTools'', ''permissionMode'', ''cwd'', ''resume''}"
  by (auto simp: claude_query_options_def Let_def split: option.splits if_splits)

text \<open>
  C8. Two chat requests that differ in nothing but their \<^verbatim>\<open>model\<close> field make the
  streamed-events adapter build the same options, and, called on the same session table
  with the same backend, make it behave the same in every respect (the backend is called
  with the same prompt and options). The options never hold a \<^verbatim>\<open>model\<close> entry: their
  keys are among \<^verbatim>\<open>allowedTools\<close>, \<^verbatim>\<open>permissionMode\<close>, \<^verbatim>\<open>cwd\<close> and \<^verbatim>\<open>resume\<close>.
\<close>

theorem model_selector_not_forwarded:
  "claude_query_options (req\<lparr>model := m1\<rparr>) existing
     = claude_query_options (req\<lparr>model := m2\<rparr>) existing
   \<and> claude_query_options req existing ''model'' = None
   \<and> dom (claude_query_options req existing)
       \<subseteq> {''allowedTools'', ''permissionMode'', ''cwd'', ''resume''}
   \<and> claude_chat query t_get t_set sm (req\<lparr>model := m1\<rparr>)
       = claude_chat query t_get t_set sm (req\<lparr>model := m2\<rparr>)"
proof -
  have "''model'' \<notin> dom (claude_query_options req existing)"
    using dom_claude_query_options [of req existing] by auto
  then have "claude_query_options req existing ''model'' = None"
    by blast
  then show ?thesis
    by (simp add: claude_query_options_model claude_chat_model dom_claude_query_options)
qed

section \<open>Session entries and their handles\<close>

lemma claude_chat_returned:
  assumes "query (message req)
             (claude_query_options req (fst (SessionManager_get t_get (conversation_id req) sm)))
           = (msgs, None)"
  shows "claude_chat query t_get t_set sm req =
           (Inr \<lparr>result = resultText (foldl on_message claude_initial msgs),
                 session_id = best_handle (captured_handle msgs)
                                (fst (SessionManager_get t_get (conversation_id req) sm)),
                 usage = \<lparr>input_tokens = inputTokens (foldl on_message claude_initial msgs),
                          output_tokens = outputTokens (foldl on_message claude_initial msgs)\<rparr>,
                 is_error = False,
                 compacted = (if compactedVar (foldl on_message claude_initial msgs)
                              then Some True else None)\<rparr>,
            if captured_handle msgs \<noteq> []
            then SessionManager_set t_set (conversation_id req) (captured_handle msgs)
                   (snd (SessionManager_get t_get (conversation_id req) sm))
            else snd (SessionManager_get t_get (conversation_id req) sm))"
  using assms
  by (simp add: claude_chat_def Let_def case_prod_beta claude_response_def captured_by_loop)

lemma claude_chat_first_turn:
  assumes "map_of sm (conversation_id req) = None"
    and "fst (claude_chat query t_get t_set sm req) = Inr r" and "\<not> is_error r"
  shows "snd (claude_chat query t_get t_set sm req) =
           (if session_id r \<noteq> []
            then SessionManager_set t_set (conversation_id req) (session_id r) sm else sm)"
proof -
  have g: "SessionManager_get t_get (conversation_id req) sm = (None, sm)"
    using assms(1) by (rule get_absent)
  obtain msgs failure where q:
    "query (message req)
       (claude_query_options req (fst (SessionManager_get t_get (conversation_id req) sm)))
     = (msgs, failure)"
    by (cases "query (message req)
       (claude_query_options req (fst (SessionManager_get t_get (conversation_id req) sm)))")
  show ?thesis
  proof (cases failure)
    case None
    with q have "query (message req)
       (claude_query_options req (fst (SessionManager_get t_get (conversation_id req) sm)))
     = (msgs, None)" by simp
    from claude_chat_returned [where query = query and t_set = t_set, OF this] assms(2)
    show ?thesis
      by (auto simp: g best_handle_def)
  next
    case (Some err)
    with q have "query (message req)
       (claude_query_options req (fst (SessionManager_get t_get (conversation_id req) sm)))
     = (msgs, Some err)" by simp
    from claude_chat_thrown [where query = query and t_set = t_set, OF this] assms(2,3)
    show ?thesis by auto
  qed
qed

lemma codex_chat_first_turn:
  assumes "map_of sm (conversation_id req) = None"
    and "fst (codex_chat codex cwd t_get t_set sm req) = Inr r" and "\<not> is_error r"
  shows "snd (codex_chat codex cwd t_get t_set sm req) =
           (if session_id r \<noteq> []
            then SessionManager_set t_set (conversation_id req) (session_id r) sm else sm)"
proof -
  have g: "SessionManager_get t_get (conversation_id req) sm = (None, sm)"
    using assms(1) by (rule get_absent)
  show ?thesis
    using assms(2,3)
    by (auto simp: codex_chat_def g Let_def codex_failed_def codex_response_def best_handle_def
          split: sum.splits)
qed

lemma list_all_update:
  "list_all P al \<Longrightarrow> P (k, v) \<Longrightarrow> list_all P (AList.update k v al)"
  by (induction al) auto

lemma handles_nonempty_get:
  assumes "handles_nonempty m"
  shows "handles_nonempty (snd (SessionManager_get now c m))"
proof (cases "map_of m c")
  case None
  then show ?thesis using assms by (simp add: get_absent)
next
  case (Some info)
  then have "(c, info) \<in> set m" by (rule map_of_SomeD)
  then have "sessionId info \<noteq> []"
    using assms by (auto simp: handles_nonempty_def list_all_iff)
  then show ?thesis
    using assms Some by (simp add: get_present handles_nonempty_def list_all_update)
qed

lemma handles_nonempty_set:
  "handles_nonempty m \<Longrightarrow> h \<noteq> [] \<Longrightarrow> handles_nonempty (SessionManager_set now c h m)"
  by (simp add: SessionManager_set_def handles_nonempty_def list_all_update)

lemma handles_nonempty_delete:
  "handles_nonempty m \<Longrightarrow> handles_nonempty (snd (SessionManager_delete c m))"
  by (simp add: SessionManager_delete_def handles_nonempty_def AList.delete_eq list_all_iff)

lemma list_all_cleanup_loop:
  "list_all P m \<Longrightarrow> list_all P (fst (cleanup_loop now todo m r))"
proof (induction todo arbitrary: m r)
  case Nil
  then show ?case by simp
next
  case (Cons e todo)
  obtain k i where e: "e = (k, i)" by (cases e)
  have "list_all P (AList.delete k m)"
    using Cons.prems by (simp add: AList.delete_eq list_all_iff)
  then show ?case
    using Cons e by simp
qed

lemma handles_nonempty_cleanup:
  "handles_nonempty m \<Longrightarrow> handles_nonempty (fst (cleanup now m))"
  by (simp add: cleanup_def handles_nonempty_def list_all_cleanup_loop)

lemma handles_nonempty_claude_chat:
  assumes "handles_nonempty sm"
  shows "handles_nonempty (snd (claude_chat query t_get t_set sm req))"
  using handles_nonempty_get [OF assms, of t_get "conversation_id req"]
  by (simp add: claude_chat_def Let_def case_prod_beta handles_nonempty_set split: option.splits)

lemma handles_nonempty_codex_chat:
  assumes "handles_nonempty sm"
  shows "handles_nonempty (snd (codex_chat codex cwd t_get t_set sm req))"
  using handles_nonempty_get [OF assms, of t_get "conversation_id req"]
  by (simp add: codex_chat_def Let_def case_prod_beta handles_nonempty_set split: sum.splits)

lemma codex_chat_returned:
  assumes "codex_open_thread codex cwd req (fst (SessionManager_get t_get (conversation_id req) sm))
             = Inr thread"
    and "thread_run thread (message req) = Inr turn"
  shows "codex_chat codex cwd t_get t_set sm req =
           (Inr \<lparr>result = finalResponse turn,
                 session_id = best_handle (string_of (thread_id thread))
                                (fst (SessionManager_get t_get (conversation_id req) sm)),
                 usage = \<lparr>input_tokens = c_inputTokens (codex_after_turn thread turn),
                          output_tokens = c_outputTokens (codex_after_turn thread turn)\<rparr>,
                 is_error = False,
                 compacted = None\<rparr>,
            if string_of (thread_id thread) \<noteq> []
            then SessionManager_set t_set (conversation_id req) (string_of (thread_id thread))
                   (snd (SessionManager_get t_get (conversation_id req) sm))
            else snd (SessionManager_get t_get (conversation_id req) sm))"
proof -
  have v: "c_threadId (codex_after_turn thread turn) = string_of (thread_id thread)"
    "c_resultText (codex_after_turn thread turn) = finalResponse turn"
    by (simp_all add: codex_after_turn_def Let_def string_of_def codex_initial_def
        split: option.splits)
  show ?thesis
    using assms by (simp add: codex_chat_def Let_def case_prod_beta codex_response_def v)
qed

lemma init_handles_nonempty: "h \<in> set (init_handles msgs) \<Longrightarrow> h \<noteq> []"
  by (auto simp: init_handles_def truthy_def string_of_def split: option.splits)

lemma captured_handle_supplied:
  "captured_handle msgs \<noteq> [] \<longleftrightarrow>
     (\<exists>m \<in> set msgs. msg_type m = ''system'' \<and> msg_subtype m = Some ''init''
        \<and> truthy (msg_session_id m))"
proof -
  have "captured_handle msgs \<noteq> [] \<longleftrightarrow> init_handles msgs \<noteq> []"
    using init_handles_nonempty [of "last (init_handles msgs)" msgs]
    by (auto simp: captured_handle_def)
  also have "\<dots> \<longleftrightarrow> (\<exists>m \<in> set msgs. msg_type m = ''system'' \<and> msg_subtype m = Some ''init''
        \<and> truthy (msg_session_id m))"
    by (auto simp: init_handles_def filter_empty_conv)
  finally show ?thesis .
qed

lemma set_lookup:
  "map_of (SessionManager_set now c h m) c = Some \<lparr>sessionId = h, lastActivity = now\<rparr>"
  by (simp add: SessionManager_set_def update_conv')

theorem first_turn_without_handle_counterexample:
  "map_of [] (conversation_id hello_request) = None
   \<and> claude_chat quiet_sdk 5 6 [] hello_request =
       (Inr \<lparr>result = ''Hi there!'', session_id = [],
             usage = \<lparr>input_tokens = 0, output_tokens = 0\<rparr>,
             is_error = False, compacted = None\<rparr>, [])"
  by (simp add: claude_chat_def SessionManager_get_def quiet_sdk_def result_message_def
        on_message_def claude_initial_def claude_response_def best_handle_def)

text \<open>
  C3 (amended). For a conversation id that has no entry in an adapter's table, \<^verbatim>\<open>get\<close>
  returns absent. A first turn that ends without a throw stores an entry exactly when the
  backend supplied a non-empty handle in it: an initialization message with a non-empty
  session id in the stream of the streamed-events backend, a non-empty thread id of the
  thread-based one. The entry then holds that handle (the latest one of the stream),
  which the response returns, and the time of the write; when the backend supplied none,
  the response returns an empty handle and the table is left as it was. No stored handle
  is ever empty: the invariant holds of the empty table and is kept by both adapters'
  \<^verbatim>\<open>chat\<close> and by \<^verbatim>\<open>get\<close>, \<^verbatim>\<open>delete\<close> and \<^verbatim>\<open>cleanup\<close>.
\<close>

theorem first_turn_establishes_entry:
  "(map_of sm (conversation_id req) = None \<longrightarrow>
      fst (SessionManager_get t_get (conversation_id req) sm) = None
    \<and> (\<forall>msgs. query (message req) (claude_query_options req None) = (msgs, None) \<longrightarrow>
          (\<exists>r. fst (claude_chat query t_get t_set sm req) = Inr r \<and> \<not> is_error r
              \<and> session_id r = captured_handle msgs)
        \<and> (captured_handle msgs \<noteq> [] \<longleftrightarrow>
             (\<exists>m \<in> set msgs. msg_type m = ''system'' \<and> msg_subtype m = Some ''init''
                \<and> truthy (msg_session_id m)))
        \<and> (if captured_handle msgs \<noteq> []
           then snd (claude_chat query t_get t_set sm req)
                  = SessionManager_set t_set (conversation_id req) (captured_handle msgs) sm
              \<and> map_of (snd (claude_chat query t_get t_set sm req)) (conversation_id req)
                  = Some \<lparr>sessionId = captured_handle msgs, lastActivity = t_set\<rparr>
           else snd (claude_chat query t_get t_set sm req) = sm))
    \<and> (\<forall>thread turn.
          startThread codex (if working_dir req \<noteq> [] then working_dir req else cwd) = Inr thread
          \<and> thread_run thread (message req) = Inr turn \<longrightarrow>
          (\<exists>r. fst (codex_chat codex cwd t_get t_set sm req) = Inr r \<and> \<not> is_error r
              \<and> session_id r = string_of (thread_id thread))
        \<and> (if string_of (thread_id thread) \<noteq> []
           then snd (codex_chat codex cwd t_get t_set sm req)
                  = SessionManager_set t_set (conversation_id req)
                      (string_of (thread_id thread)) sm
              \<and> map_of (snd (codex_chat codex cwd t_get t_set sm req)) (conversation_id req)
                  = Some \<lparr>sessionId = string_of (thread_id thread), lastActivity = t_set\<rparr>
           else snd (codex_chat codex cwd t_get t_set sm req) = sm))
    \<and> (\<forall>r. fst (claude_chat query t_get t_set sm req) = Inr r \<and> \<not> is_error r \<longrightarrow>
          (if session_id r \<noteq> []
           then map_of (snd (claude_chat query t_get t_set sm req)) (conversation_id req)
                  = Some \<lparr>sessionId = session_id r, lastActivity = t_set\<rparr>
           else snd (claude_chat query t_get t_set sm req) = sm))
    \<and> (\<forall>r. fst (codex_chat codex cwd t_get t_set sm req) = Inr r \<and> \<not> is_error r \<longrightarrow>
          (if session_id r \<noteq> []
           then map_of (snd (codex_chat codex cwd t_get t_set sm req)) (conversation_id req)
                  = Some \<lparr>sessionId = session_id r, lastActivity = t_set\<rparr>
           else snd (codex_chat codex cwd t_get t_set sm req) = sm)))
   \<and> handles_nonempty []
   \<and> (handles_nonempty sm \<longrightarrow>
        handles_nonempty (snd (claude_chat query t_get t_set sm req))
      \<and> handles_nonempty (snd (codex_chat codex cwd t_get t_set sm req))
      \<and> handles_nonempty (snd (SessionManager_get now c sm))
      \<and> handles_nonempty (snd (SessionManager_delete c sm))
      \<and> handles_nonempty (fst (cleanup now sm)))"
proof (intro conjI impI allI)
  assume a: "map_of sm (conversation_id req) = None"
  have g: "SessionManager_get t_get (conversation_id req) sm = (None, sm)"
    by (rule get_absent [OF a])
  show "fst (SessionManager_get t_get (conversation_id req) sm) = None"
    by (simp add: g)
  {
    fix msgs
    assume "query (message req) (claude_query_options req None) = (msgs, None)"
    then have "query (message req)
        (claude_query_options req (fst (SessionManager_get t_get (conversation_id req) sm)))
      = (msgs, None)"
      by (simp add: g)
    note c = claude_chat_returned [where query = query and t_set = t_set, OF this]
    show "\<exists>r. fst (claude_chat query t_get t_set sm req) = Inr r \<and> \<not> is_error r
              \<and> session_id r = captured_handle msgs"
      by (simp add: c g best_handle_def)
    show "captured_handle msgs \<noteq> [] \<longleftrightarrow>
             (\<exists>m \<in> set msgs. msg_type m = ''system'' \<and> msg_subtype m = Some ''init''
                \<and> truthy (msg_session_id m))"
      by (rule captured_handle_supplied)
    show "if captured_handle msgs \<noteq> []
           then snd (claude_chat query t_get t_set sm req)
                  = SessionManager_set t_set (conversation_id req) (captured_handle msgs) sm
              \<and> map_of (snd (claude_chat query t_get t_set sm req)) (conversation_id req)
                  = Some \<lparr>sessionId = captured_handle msgs, lastActivity = t_set\<rparr>
           else snd (claude_chat query t_get t_set sm req) = sm"
      by (simp add: c g set_lookup)
  }
  {
    fix thread turn
    assume h: "startThread codex (if working_dir req \<noteq> [] then working_dir req else cwd)
          = Inr thread \<and> thread_run thread (message req) = Inr turn"
    then have o: "codex_open_thread codex cwd req
        (fst (SessionManager_get t_get (conversation_id req) sm)) = Inr thread"
      by (simp add: g codex_open_thread_def)
    from h have r: "thread_run thread (message req) = Inr turn" by simp
    note c = codex_chat_returned [where t_set = t_set, OF o r]
    show "\<exists>r. fst (codex_chat codex cwd t_get t_set sm req) = Inr r \<and> \<not> is_error r
              \<and> session_id r = string_of (thread_id thread)"
      by (simp add: c g best_handle_def)
    show "if string_of (thread_id thread) \<noteq> []
           then snd (codex_chat codex cwd t_get t_set sm req)
                  = SessionManager_set t_set (conversation_id req)
                      (string_of (thread_id thread)) sm
              \<and> map_of (snd (codex_chat codex cwd t_get t_set sm req)) (conversation_id req)
                  = Some \<lparr>sessionId = string_of (thread_id thread), lastActivity = t_set\<rparr>
           else snd (codex_chat codex cwd t_get t_set sm req) = sm"
      by (simp add: c g set_lookup)
  }
  {
    fix r
    assume "fst (claude_chat query t_get t_set sm req) = Inr r \<and> \<not> is_error r"
    then have "snd (claude_chat query t_get t_set sm req) =
           (if session_id r \<noteq> []
            then SessionManager_set t_set (conversation_id req) (session_id r) sm else sm)"
      using claude_chat_first_turn [OF a] by blast
    then show "if session_id r \<noteq> []
           then map_of (snd (claude_chat query t_get t_set sm req)) (conversation_id req)
                  = Some \<lparr>sessionId = session_id r, lastActivity = t_set\<rparr>
           else snd (claude_chat query t_get t_set sm req) = sm"
      by (simp add: set_lookup)
  }
  {
    fix r
    assume "fst (codex_chat codex cwd t_get t_set sm req) = Inr r \<and> \<not> is_error r"
    then have "snd (codex_chat codex cwd t_get t_set sm req) =
           (if session_id r \<noteq> []
            then SessionManager_set t_set (conversation_id req) (session_id r) sm else sm)"
      using codex_chat_first_turn [OF a] by blast
    then show "if session_id r \<noteq> []
           then map_of (snd (codex_chat codex cwd t_get t_set sm req)) (conversation_id req)
                  = Some \<lparr>sessionId = session_id r, lastActivity = t_set\<rparr>
           else snd (codex_chat codex cwd t_get t_set sm req) = sm"
      by (simp add: set_lookup)
  }
next
  show "handles_nonempty []" by (simp add: handles_nonempty_def)
next
  assume i: "handles_nonempty sm"
  show "handles_nonempty (snd (claude_chat query t_get t_set sm req))"
    by (rule handles_nonempty_claude_chat [OF i])
  show "handles_nonempty (snd (codex_chat codex cwd t_get t_set sm req))"
    by (rule handles_nonempty_codex_chat [OF i])
  show "handles_nonempty (snd (SessionManager_get now c sm))"
    by (rule handles_nonempty_get [OF i])
  show "handles_nonempty (snd (SessionManager_delete c sm))"
    by (rule handles_nonempty_delete [OF i])
  show "handles_nonempty (fst (cleanup now sm))"
    by (rule handles_nonempty_cleanup [OF i])
qed

theorem first_turn_establishes_entry_witness:
  "map_of [] (conversation_id hello_request) = None
   \<and> fst (SessionManager_get 5 (conversation_id hello_request) []) = None
   \<and> friendly_sdk (message hello_request) (claude_query_options hello_request None)
       = ([init_message ''s1'', result_message ''Hi there!''], None)
   \<and> captured_handle [init_message ''s1'', result_message ''Hi there!''] = ''s1''
   \<and> fst (claude_chat friendly_sdk 5 6 [] hello_request) =
       Inr \<lparr>result = ''Hi there!'', session_id = ''s1'',
            usage = \<lparr>input_tokens = 0, output_tokens = 0\<rparr>,
            is_error = False, compacted = None\<rparr>
   \<and> snd (claude_chat friendly_sdk 5 6 [] hello_request)
       = [(''c1'', \<lparr>sessionId = ''s1'', lastActivity = 6\<rparr>)]
   \<and> map_of (snd (claude_chat friendly_sdk 5 6 [] hello_request)) (conversation_id hello_request)
       = Some \<lparr>sessionId = ''s1'', lastActivity = 6\<rparr>
   \<and> startThread friendly_codex
         (if working_dir hello_request \<noteq> [] then working_dir hello_request else ''/srv/bridge'')
       = Inr friendly_thread
   \<and> thread_run friendly_thread (message hello_request)
       = Inr \<lparr>finalResponse = ''Done.'',
              turn_usage = Some \<lparr>input_tokens = 120, output_tokens = 30\<rparr>\<rparr>
   \<and> string_of (thread_id friendly_thread) = ''t1''
   \<and> fst (codex_chat friendly_codex ''/srv/bridge'' 5 6 [] hello_request) =
       Inr \<lparr>result = ''Done.'', session_id = ''t1'',
            usage = \<lparr>input_tokens = 120, output_tokens = 30\<rparr>,
            is_error = False, compacted = None\<rparr>
   \<and> snd (codex_chat friendly_codex ''/srv/bridge'' 5 6 [] hello_request)
       = [(''c1'', \<lparr>sessionId = ''t1'', lastActivity = 6\<rparr>)]
   \<and> map_of (snd (codex_chat friendly_codex ''/srv/bridge'' 5 6 [] hello_request))
         (conversation_id hello_request)
       = Some \<lparr>sessionId = ''t1'', lastActivity = 6\<rparr>
   \<and> handles_nonempty []
   \<and> handles_nonempty (snd (claude_chat friendly_sdk 5 6 [] hello_request))
   \<and> handles_nonempty (snd (codex_chat friendly_codex ''/srv/bridge'' 5 6 [] hello_request))"
proof -
  note t = first_turn_establishes_entry [where sm = "[]" and req = hello_request
      and query = friendly_sdk and codex = friendly_codex and cwd = "''/srv/bridge''"
      and t_get = 5 and t_set = 6 and now = 7 and c = "''c1''"]
  have a: "map_of [] (conversation_id hello_request) = None" by simp
  have q: "friendly_sdk (message hello_request) (claude_query_options hello_request None)
       = ([init_message ''s1'', result_message ''Hi there!''], None)"
    by (simp add: friendly_sdk_def)
  have h: "captured_handle [init_message ''s1'', result_message ''Hi there!''] = ''s1''"
    by (simp add: captured_handle_def init_handles_def init_message_def result_message_def
        truthy_def string_of_def)
  have s: "startThread friendly_codex
         (if working_dir hello_request \<noteq> [] then working_dir hello_request else ''/srv/bridge'')
       = Inr friendly_thread"
    by (simp add: friendly_codex_def)
  have r: "thread_run friendly_thread (message hello_request)
       = Inr \<lparr>finalResponse = ''Done.'',
              turn_usage = Some \<lparr>input_tokens = 120, output_tokens = 30\<rparr>\<rparr>"
    by (simp add: friendly_thread_def)
  have i: "string_of (thread_id friendly_thread) = ''t1''"
    by (simp add: friendly_thread_def string_of_def)
  have c1: "fst (claude_chat friendly_sdk 5 6 [] hello_request) =
       Inr \<lparr>result = ''Hi there!'', session_id = ''s1'',
            usage = \<lparr>input_tokens = 0, output_tokens = 0\<rparr>,
            is_error = False, compacted = None\<rparr>"
    by (simp add: claude_chat_def SessionManager_get_def friendly_sdk_def result_message_def
        init_message_def on_message_def claude_initial_def claude_response_def best_handle_def)
  have c2: "fst (codex_chat friendly_codex ''/srv/bridge'' 5 6 [] hello_request) =
       Inr \<lparr>result = ''Done.'', session_id = ''t1'',
            usage = \<lparr>input_tokens = 120, output_tokens = 30\<rparr>,
            is_error = False, compacted = None\<rparr>"
    by (simp add: codex_chat_def SessionManager_get_def friendly_codex_def friendly_thread_def
        codex_open_thread_def codex_after_turn_def codex_initial_def codex_response_def
        best_handle_def)
  have k: "conversation_id hello_request = ''c1''"
    by (simp add: hello_request_def)
  have t1: "snd (claude_chat friendly_sdk 5 6 [] hello_request)
       = [(''c1'', \<lparr>sessionId = ''s1'', lastActivity = 6\<rparr>)]"
    using t a q h by (simp add: SessionManager_set_def k)
  have t2: "snd (codex_chat friendly_codex ''/srv/bridge'' 5 6 [] hello_request)
       = [(''c1'', \<lparr>sessionId = ''t1'', lastActivity = 6\<rparr>)]"
    using t a s r i by (simp add: SessionManager_set_def k)
  have g: "fst (SessionManager_get 5 (conversation_id hello_request) []) = None"
    by (simp add: SessionManager_get_def)
  have m1: "map_of (snd (claude_chat friendly_sdk 5 6 [] hello_request))
      (conversation_id hello_request) = Some \<lparr>sessionId = ''s1'', lastActivity = 6\<rparr>"
    unfolding t1 k by simp
  have m2: "map_of (snd (codex_chat friendly_codex ''/srv/bridge'' 5 6 [] hello_request))
      (conversation_id hello_request) = Some \<lparr>sessionId = ''t1'', lastActivity = 6\<rparr>"
    unfolding t2 k by simp
  have n0: "handles_nonempty []"
    by (simp add: handles_nonempty_def)
  have n1: "handles_nonempty (snd (claude_chat friendly_sdk 5 6 [] hello_request))"
    "handles_nonempty (snd (codex_chat friendly_codex ''/srv/bridge'' 5 6 [] hello_request))"
    using t n0 by blast+
  show ?thesis
    by (intro conjI) (fact a g q h c1 t1 m1 s r i c2 t2 m2 n0 n1)+
qed

section \<open>Usage reported by the client\<close>

lemma Do_no_user_message:
  "extractLastUserMessage (Messages req) = [] \<Longrightarrow> Do s env req = (Inl NoUserMessage, [])"
  by (simp add: Do_def)

lemma Do_sent:
  assumes "extractLastUserMessage (Messages req) \<noteq> []"
    and "new_request_ok env (BridgeURL s @ ''/chat'')"
  shows "snd (Do s env req) =
           [(BridgeURL s @ ''/chat'',
             \<lparr>ConversationID = (if ConversationIDFromContext env = [] then ''default''
                                 else ConversationIDFromContext env),
              Message = extractLastUserMessage (Messages req),
              WorkingDir = [], req_Model = Model s\<rparr>)]"
  using assms by (simp add: Do_def Let_def)

lemma Do_replied:
  assumes "extractLastUserMessage (Messages req) \<noteq> []"
    and "new_request_ok env (BridgeURL s @ ''/chat'')"
    and "round_trip env (BridgeURL s @ ''/chat'')
           \<lparr>ConversationID = (if ConversationIDFromContext env = [] then ''default''
                               else ConversationIDFromContext env),
            Message = extractLastUserMessage (Messages req),
            WorkingDir = [], req_Model = Model s\<rparr> = Replies 200 (Some w)"
    and "\<not> IsError w"
  shows "fst (Do s env req) = Inr (build_response w)"
  using assms by (simp add: Do_def Let_def StatusOK_def)

lemma Do_succeeded:
  assumes "Do s env req = (Inr resp, sent)"
  shows "\<exists>url bridgeReq w. sent = [(url, bridgeReq)]
           \<and> round_trip env url bridgeReq = Replies 200 (Some w)
           \<and> \<not> IsError w \<and> resp = build_response w"
  using assms
  by (auto simp: Do_def Let_def StatusOK_def
        split: if_splits http_reply.splits option.splits)

lemma build_response_usage:
  "resp_Usage (build_response w) =
     (if Compacted w then \<lparr>InputTokens = 200000, OutputTokens = 0\<rparr> else Usage w)"
  by (simp add: build_response_def TokenContextWindow_def)

text \<open>
  C4. Whenever \<^verbatim>\<open>Do\<close> succeeds, it does so on a bridge response with status 200 that
  is not error-flagged, and the usage it reports is 200000 input tokens (the context
  window) and zero output tokens when that response is flagged as compacted, whatever
  usage the response carries, and the usage of the response otherwise. Conversely every
  such response to the request the client sent makes \<^verbatim>\<open>Do\<close> succeed with that usage.
\<close>

theorem compaction_overrides_usage:
  "(\<forall>resp sent. Do s env req = (Inr resp, sent) \<longrightarrow>
      (\<exists>url bridgeReq w. sent = [(url, bridgeReq)]
         \<and> round_trip env url bridgeReq = Replies 200 (Some w) \<and> \<not> IsError w
         \<and> resp_Usage resp =
             (if Compacted w then \<lparr>InputTokens = 200000, OutputTokens = 0\<rparr> else Usage w)))
   \<and> (\<forall>w. extractLastUserMessage (Messages req) \<noteq> []
         \<and> new_request_ok env (BridgeURL s @ ''/chat'')
         \<and> round_trip env (BridgeURL s @ ''/chat'')
             \<lparr>ConversationID = (if ConversationIDFromContext env = [] then ''default''
                                 else ConversationIDFromContext env),
              Message = extractLastUserMessage (Messages req),
              WorkingDir = [], req_Model = Model s\<rparr> = Replies 200 (Some w)
         \<and> \<not> IsError w \<longrightarrow>
       (\<exists>resp. fst (Do s env req) = Inr resp
          \<and> resp_Usage resp =
              (if Compacted w then \<lparr>InputTokens = 200000, OutputTokens = 0\<rparr> else Usage w)
          \<and> TokenContextWindow = 200000))"
proof (intro conjI allI impI)
  fix resp sent
  assume "Do s env req = (Inr resp, sent)"
  from Do_succeeded [OF this]
  show "\<exists>url bridgeReq w. sent = [(url, bridgeReq)]
         \<and> round_trip env url bridgeReq = Replies 200 (Some w) \<and> \<not> IsError w
         \<and> resp_Usage resp =
             (if Compacted w then \<lparr>InputTokens = 200000, OutputTokens = 0\<rparr> else Usage w)"
    using build_response_usage by blast
next
  fix w
  assume h: "extractLastUserMessage (Messages req) \<noteq> []
         \<and> new_request_ok env (BridgeURL s @ ''/chat'')
         \<and> round_trip env (BridgeURL s @ ''/chat'')
             \<lparr>ConversationID = (if ConversationIDFromContext env = [] then ''default''
                                 else ConversationIDFromContext env),
              Message = extractLastUserMessage (Messages req),
              WorkingDir = [], req_Model = Model s\<rparr> = Replies 200 (Some w)
         \<and> \<not> IsError w"
  then have "fst (Do s env req) = Inr (build_response w)"
    using Do_replied [of req env s w] by blast
  then show "\<exists>resp. fst (Do s env req) = Inr resp
          \<and> resp_Usage resp =
              (if Compacted w then \<lparr>InputTokens = 200000, OutputTokens = 0\<rparr> else Usage w)
          \<and> TokenContextWindow = 200000"
    by (simp add: build_response_usage TokenContextWindow_def)
qed

theorem compaction_overrides_usage_witness:
  "Do example_service compacting_bridge \<lparr>Messages = [user_says ''Hello'']\<rparr> =
     (Inr \<lparr>resp_Role = MessageRoleAssistant,
           resp_Content = [\<lparr>Type = ContentTypeText, Text = ''Hi there!''\<rparr>],
           resp_StopReason = StopReasonEndTurn,
           resp_Usage = \<lparr>InputTokens = 200000, OutputTokens = 0\<rparr>\<rparr>,
      [(''http://localhost:9100/chat'',
        \<lparr>ConversationID = ''c1'', Message = ''Hello'', WorkingDir = [], req_Model = ''codex''\<rparr>)])
   \<and> round_trip compacting_bridge ''http://localhost:9100/chat''
        \<lparr>ConversationID = ''c1'', Message = ''Hello'', WorkingDir = [], req_Model = ''codex''\<rparr>
       = Replies 200 (Some compacted_reply)
   \<and> Compacted compacted_reply \<and> \<not> IsError compacted_reply
   \<and> Usage compacted_reply = \<lparr>InputTokens = 100, OutputTokens = 50\<rparr>
   \<and> (\<exists>resp. fst (Do example_service compacting_bridge \<lparr>Messages = [user_says ''Hello'']\<rparr>)
                 = Inr resp
          \<and> resp_Usage resp = \<lparr>InputTokens = 200000, OutputTokens = 0\<rparr>)"
proof -
  note t = compaction_overrides_usage [where s = example_service and env = compacting_bridge
      and req = "\<lparr>Messages = [user_says ''Hello'']\<rparr>"]
  have e: "extractLastUserMessage [user_says ''Hello''] = ''Hello''"
    by (simp add: extractLastUserMessage_def user_says_def)
  have d: "Do example_service compacting_bridge \<lparr>Messages = [user_says ''Hello'']\<rparr> =
     (Inr \<lparr>resp_Role = MessageRoleAssistant,
           resp_Content = [\<lparr>Type = ContentTypeText, Text = ''Hi there!''\<rparr>],
           resp_StopReason = StopReasonEndTurn,
           resp_Usage = \<lparr>InputTokens = 200000, OutputTokens = 0\<rparr>\<rparr>,
      [(''http://localhost:9100/chat'',
        \<lparr>ConversationID = ''c1'', Message = ''Hello'', WorkingDir = [], req_Model = ''codex''\<rparr>)])"
    by (simp add: Do_def Let_def e example_service_def compacting_bridge_def compacted_reply_def
        StatusOK_def build_response_def TokenContextWindow_def)
  have r: "round_trip compacting_bridge ''http://localhost:9100/chat''
        \<lparr>ConversationID = ''c1'', Message = ''Hello'', WorkingDir = [], req_Model = ''codex''\<rparr>
       = Replies 200 (Some compacted_reply)"
    by (simp add: compacting_bridge_def)
  have c: "Compacted compacted_reply" "\<not> IsError compacted_reply"
    "Usage compacted_reply = \<lparr>InputTokens = 100, OutputTokens = 50\<rparr>"
    by (simp_all add: compacted_reply_def)
  have h: "extractLastUserMessage (Messages \<lparr>Messages = [user_says ''Hello'']\<rparr>) \<noteq> []
         \<and> new_request_ok compacting_bridge (BridgeURL example_service @ ''/chat'')
         \<and> round_trip compacting_bridge (BridgeURL example_service @ ''/chat'')
             \<lparr>ConversationID = (if ConversationIDFromContext compacting_bridge = [] then ''default''
                                 else ConversationIDFromContext compacting_bridge),
              Message = extractLastUserMessage (Messages \<lparr>Messages = [user_says ''Hello'']\<rparr>),
              WorkingDir = [], req_Model = Model example_service\<rparr>
            = Replies 200 (Some compacted_reply)
         \<and> \<not> IsError compacted_reply"
    using c by (simp add: e compacting_bridge_def example_service_def)
  from t h have "\<exists>resp. fst (Do example_service compacting_bridge \<lparr>Messages = [user_says ''Hello'']\<rparr>)
                 = Inr resp
          \<and> resp_Usage resp =
              (if Compacted compacted_reply then \<lparr>InputTokens = 200000, OutputTokens = 0\<rparr>
               else Usage compacted_reply)
          \<and> TokenContextWindow = 200000"
    by blast
  then have x: "\<exists>resp. fst (Do example_service compacting_bridge \<lparr>Messages = [user_says ''Hello'']\<rparr>)
                 = Inr resp
          \<and> resp_Usage resp = \<lparr>InputTokens = 200000, OutputTokens = 0\<rparr>"
    using c by auto
  show ?thesis
    using d r c x by blast
qed

section \<open>The prompt the client extracts\<close>

lemma first_text_segments:
  "first_text cs =
     (case map Text (filter (\<lambda>c. Type c = ContentTypeText \<and> Text c \<noteq> []) cs) of
        [] \<Rightarrow> None | t # ts \<Rightarrow> Some t)"
  by (induction cs) auto

lemma first_text_message:
  "first_text (Content m) = (if text_segments m = [] then None else Some (message_text m))"
  by (simp add: first_text_segments text_segments_def message_text_def split: list.splits)

lemma scan_back_filter:
  "scan_back ms =
     (case filter (\<lambda>m. Role m = MessageRoleUser \<and> text_segments m \<noteq> []) ms of
        [] \<Rightarrow> [] | m # rest \<Rightarrow> message_text m)"
  by (induction ms) (auto simp: first_text_message)

lemma extractLastUserMessage_last:
  "extractLastUserMessage msgs =
     (if user_text_messages msgs = [] then [] else message_text (last (user_text_messages msgs)))"
proof -
  let ?P = "\<lambda>m. Role m = MessageRoleUser \<and> text_segments m \<noteq> []"
  have "filter ?P (rev msgs) = rev (filter ?P msgs)"
    by (simp add: rev_filter)
  moreover have "(case rev xs of [] \<Rightarrow> [] | m # rest \<Rightarrow> message_text m)
      = (if xs = [] then [] else message_text (last xs))" for xs :: "llm_Message list"
    by (cases xs rule: rev_cases) auto
  ultimately show ?thesis
    by (simp add: extractLastUserMessage_def scan_back_filter user_text_messages_def)
qed

lemma message_text_nonempty: "text_segments m \<noteq> [] \<Longrightarrow> message_text m \<noteq> []"
proof -
  assume a: "text_segments m \<noteq> []"
  then obtain t ts where s: "text_segments m = t # ts" by (cases "text_segments m") auto
  then have "t \<in> set (text_segments m)" by simp
  then have "t \<noteq> []" by (auto simp: text_segments_def)
  then show ?thesis by (simp add: message_text_def s)
qed

lemma extractLastUserMessage_empty:
  "extractLastUserMessage msgs = [] \<longleftrightarrow> user_text_messages msgs = []"
proof (cases "user_text_messages msgs = []")
  case True
  then show ?thesis by (simp add: extractLastUserMessage_last)
next
  case False
  then have "last (user_text_messages msgs) \<in> set (user_text_messages msgs)" by simp
  then have "text_segments (last (user_text_messages msgs)) \<noteq> []"
    by (simp add: user_text_messages_def)
  then show ?thesis
    using False by (simp add: extractLastUserMessage_last message_text_nonempty)
qed

lemma no_user_no_text: "user_messages msgs = [] \<Longrightarrow> user_text_messages msgs = []"
  by (auto simp: user_messages_def user_text_messages_def filter_empty_conv)

lemma last_filter_kept: "xs \<noteq> [] \<Longrightarrow> P (last xs) \<Longrightarrow> last (filter P xs) = last xs"
  by (induction xs rule: rev_induct) auto

lemma user_text_messages_filter:
  "user_text_messages msgs = filter (\<lambda>m. text_segments m \<noteq> []) (user_messages msgs)"
  by (simp add: user_text_messages_def user_messages_def conj_commute)

lemma extractLastUserMessage_latest_has_text:
  assumes "user_messages msgs \<noteq> []" and "text_segments (last (user_messages msgs)) \<noteq> []"
  shows "extractLastUserMessage msgs = message_text (last (user_messages msgs))"
proof -
  have l: "last (user_text_messages msgs) = last (user_messages msgs)"
    unfolding user_text_messages_filter using assms by (rule last_filter_kept)
  have "last (user_messages msgs) \<in> set (user_text_messages msgs)"
    unfolding user_text_messages_filter using assms by simp
  then have "user_text_messages msgs \<noteq> []" by auto
  then show ?thesis
    by (simp add: extractLastUserMessage_last l)
qed

lemma Do_without_user_message:
  "user_messages msgs = [] \<Longrightarrow> Do s env \<lparr>Messages = msgs\<rparr> = (Inl NoUserMessage, [])"
  by (simp add: Do_no_user_message extractLastUserMessage_empty no_user_no_text)

text \<open>
  C7. The client is to send the text of the most recent message of the human role, as
  its own comments say. In the history of a human message
  \<^verbatim>\<open>first\<close>, an answer, and a latest human message that carries no text, the most recent
  message of the human role has the empty text; the search nevertheless goes on to the
  earlier message, and the request handed to the transport carries \<^verbatim>\<open>first\<close>.
\<close>

theorem prompt_taken_from_older_message:
  "last (user_messages attachment_history) = user_attachment
   \<and> message_text (last (user_messages attachment_history)) = []
   \<and> extractLastUserMessage attachment_history = ''first''
   \<and> Do example_service compacting_bridge \<lparr>Messages = attachment_history\<rparr> =
       (Inr \<lparr>resp_Role = MessageRoleAssistant,
             resp_Content = [\<lparr>Type = ContentTypeText, Text = ''Hi there!''\<rparr>],
             resp_StopReason = StopReasonEndTurn,
             resp_Usage = \<lparr>InputTokens = 200000, OutputTokens = 0\<rparr>\<rparr>,
        [(''http://localhost:9100/chat'',
          \<lparr>ConversationID = ''c1'', Message = ''first'', WorkingDir = [],
           req_Model = ''codex''\<rparr>)])"
proof -
  have u: "user_messages attachment_history = [user_says ''first'', user_attachment]"
    by (simp add: user_messages_def attachment_history_def user_says_def assistant_says_def
        user_attachment_def)
  have t: "message_text user_attachment = []"
    by (simp add: message_text_def text_segments_def user_attachment_def)
  have e: "extractLastUserMessage attachment_history = ''first''"
    by (simp add: extractLastUserMessage_def attachment_history_def user_says_def
        assistant_says_def user_attachment_def)
  have d: "Do example_service compacting_bridge \<lparr>Messages = attachment_history\<rparr> =
       (Inr \<lparr>resp_Role = MessageRoleAssistant,
             resp_Content = [\<lparr>Type = ContentTypeText, Text = ''Hi there!''\<rparr>],
             resp_StopReason = StopReasonEndTurn,
             resp_Usage = \<lparr>InputTokens = 200000, OutputTokens = 0\<rparr>\<rparr>,
        [(''http://localhost:9100/chat'',
          \<lparr>ConversationID = ''c1'', Message = ''first'', WorkingDir = [],
           req_Model = ''codex''\<rparr>)])"
    by (simp add: Do_def Let_def e example_service_def compacting_bridge_def compacted_reply_def
        StatusOK_def build_response_def TokenContextWindow_def)
  show ?thesis
    using u t e d by simp
qed

section \<open>Compaction and the thread-based adapter\<close>

lemma codex_chat_compacted:
  "fst (codex_chat codex cwd t_get t_set sm req) = Inr r \<Longrightarrow> compacted r = None"
  by (auto simp: codex_chat_def Let_def case_prod_beta codex_failed_def codex_response_def
        split: sum.splits)

lemma unmarshal_not_compacted:
  "compacted r = None \<Longrightarrow> unmarshal_response r = Some w \<Longrightarrow> \<not> Compacted w"
  by (auto simp: unmarshal_response_def split: if_splits)

lemma post_chat_codex_json:
  assumes "fst (snd (post_chat env st body)) = [(Codex, q)]"
  shows "fst (codex_chat (env_codex env) (env_cwd env) (env_t_get env) (env_t_set env)
                (codexSessionManager st) (defaulted_request (env_cwd env) body))
           = Inr (json (fst (post_chat env st body)))"
proof -
  obtain r where r: "fst (codex_chat (env_codex env) (env_cwd env) (env_t_get env) (env_t_set env)
                (codexSessionManager st) (defaulted_request (env_cwd env) body)) = Inr r"
    using codex_chat_settles by blast
  then show ?thesis
    using assms
    by (auto simp: post_chat_def Let_def case_prod_beta respond_def split: if_splits)
qed

text \<open>
  C9. The response of the thread-based adapter never carries \<^verbatim>\<open>compacted\<close>, whatever the
  backend does, and so neither does the response of a \<^verbatim>\<open>/chat\<close> call that the bridge
  routed to that adapter. Decoded by the client, such a response has the flag false, and
  a \<^verbatim>\<open>Do\<close> that succeeds on it reports the usage the response carries, never the
  substituted context-window usage.
\<close>

theorem codex_never_compacted:
  "(\<exists>r. fst (codex_chat codex cwd t_get t_set sm req) = Inr r \<and> compacted r = None)
   \<and> (\<forall>q. fst (snd (post_chat env st body)) = [(Codex, q)] \<longrightarrow>
         compacted (json (fst (post_chat env st body))) = None
       \<and> (\<forall>w. unmarshal_response (json (fst (post_chat env st body))) = Some w \<longrightarrow>
             \<not> Compacted w
           \<and> (\<forall>s cenv lreq resp url bridgeReq.
                 Do s cenv lreq = (Inr resp, [(url, bridgeReq)])
                 \<and> round_trip cenv url bridgeReq = Replies 200 (Some w) \<longrightarrow>
                 resp_Usage resp = Usage w)))"
proof (intro conjI allI impI)
  show "\<exists>r. fst (codex_chat codex cwd t_get t_set sm req) = Inr r \<and> compacted r = None"
    using codex_chat_settles [of codex cwd t_get t_set sm req] codex_chat_compacted by blast
next
  fix q
  assume "fst (snd (post_chat env st body)) = [(Codex, q)]"
  from codex_chat_compacted [OF post_chat_codex_json [OF this]]
  show c: "compacted (json (fst (post_chat env st body))) = None" .
  fix w
  assume "unmarshal_response (json (fst (post_chat env st body))) = Some w"
  from unmarshal_not_compacted [OF c this]
  show n: "\<not> Compacted w" .
  fix s cenv lreq resp url bridgeReq
  assume "Do s cenv lreq = (Inr resp, [(url, bridgeReq)])
      \<and> round_trip cenv url bridgeReq = Replies 200 (Some w)"
  then have "resp = build_response w"
    using Do_succeeded [of s cenv lreq resp "[(url, bridgeReq)]"] by auto
  then show "resp_Usage resp = Usage w"
    using n by (simp add: build_response_usage)
qed

theorem codex_never_compacted_witness:
  "fst (snd (post_chat codex_env example_state codex_body)) =
     [(Codex, \<lparr>conversation_id = ''c1'', message = ''Hello'', working_dir = ''/srv/bridge'',
               model = Some ''codex''\<rparr>)]
   \<and> fst (post_chat codex_env example_state codex_body) =
       \<lparr>status = 200,
        json = \<lparr>result = ''Done.'', session_id = ''t1'',
                usage = \<lparr>input_tokens = 120, output_tokens = 30\<rparr>,
                is_error = False, compacted = None\<rparr>\<rparr>
   \<and> unmarshal_response (json (fst (post_chat codex_env example_state codex_body))) =
       Some \<lparr>Result = ''Done.'', SessionID = ''t1'',
             Usage = \<lparr>InputTokens = 120, OutputTokens = 30\<rparr>,
             IsError = False, Compacted = False\<rparr>
   \<and> Do example_service codex_bridge \<lparr>Messages = [user_says ''Hello'']\<rparr> =
       (Inr \<lparr>resp_Role = MessageRoleAssistant,
             resp_Content = [\<lparr>Type = ContentTypeText, Text = ''Done.''\<rparr>],
             resp_StopReason = StopReasonEndTurn,
             resp_Usage = \<lparr>InputTokens = 120, OutputTokens = 30\<rparr>\<rparr>,
        [(''http://localhost:9100/chat'',
          \<lparr>ConversationID = ''c1'', Message = ''Hello'', WorkingDir = [],
           req_Model = ''codex''\<rparr>)])
   \<and> round_trip codex_bridge ''http://localhost:9100/chat''
         \<lparr>ConversationID = ''c1'', Message = ''Hello'', WorkingDir = [], req_Model = ''codex''\<rparr>
       = Replies 200 (Some \<lparr>Result = ''Done.'', SessionID = ''t1'',
             Usage = \<lparr>InputTokens = 120, OutputTokens = 30\<rparr>,
             IsError = False, Compacted = False\<rparr>)"
proof -
  note t = codex_never_compacted [where env = codex_env and st = example_state
      and body = codex_body and codex = friendly_codex and cwd = "''/srv/bridge''"
      and t_get = 5 and t_set = 6 and sm = "[]" and req = hello_request]
  have m: "marshal_request
      \<lparr>ConversationID = ''c1'', Message = ''Hello'', WorkingDir = [], req_Model = ''codex''\<rparr>
      = codex_body"
    by (simp add: marshal_request_def codex_body_def json_string_def)
  have p: "post_chat codex_env example_state codex_body =
      (\<lparr>status = 200,
        json = \<lparr>result = ''Done.'', session_id = ''t1'',
                usage = \<lparr>input_tokens = 120, output_tokens = 30\<rparr>,
                is_error = False, compacted = None\<rparr>\<rparr>,
       [(Codex, \<lparr>conversation_id = ''c1'', message = ''Hello'', working_dir = ''/srv/bridge'',
               model = Some ''codex''\<rparr>)],
       \<lparr>claudeSessionManager = example_sessions,
        codexSessionManager = [(''c1'', \<lparr>sessionId = ''t1'', lastActivity = 6\<rparr>)]\<rparr>)"
    by (simp add: post_chat_def codex_env_def example_state_def codex_body_def truthy_def
        string_of_def defaulted_request_def isCodexModel_def codex_chat_def
        SessionManager_get_def SessionManager_set_def friendly_codex_def friendly_thread_def
        codex_open_thread_def codex_after_turn_def codex_initial_def codex_response_def
        best_handle_def respond_def)
  have u: "unmarshal_response \<lparr>result = ''Done.'', session_id = ''t1'',
                usage = \<lparr>input_tokens = 120, output_tokens = 30\<rparr>,
                is_error = False, compacted = None\<rparr> =
       Some \<lparr>Result = ''Done.'', SessionID = ''t1'',
             Usage = \<lparr>InputTokens = 120, OutputTokens = 30\<rparr>,
             IsError = False, Compacted = False\<rparr>"
    by (simp add: unmarshal_response_def)
  have r: "round_trip codex_bridge ''http://localhost:9100/chat''
         \<lparr>ConversationID = ''c1'', Message = ''Hello'', WorkingDir = [], req_Model = ''codex''\<rparr>
       = Replies 200 (Some \<lparr>Result = ''Done.'', SessionID = ''t1'',
             Usage = \<lparr>InputTokens = 120, OutputTokens = 30\<rparr>,
             IsError = False, Compacted = False\<rparr>)"
    by (simp add: codex_bridge_def m p u)
  have e: "extractLastUserMessage [user_says ''Hello''] = ''Hello''"
    by (simp add: extractLastUserMessage_def user_says_def)
  have c: "ConversationIDFromContext codex_bridge = ''c1''" "new_request_ok codex_bridge x" for x
    by (simp_all add: codex_bridge_def)
  have d: "Do example_service codex_bridge \<lparr>Messages = [user_says ''Hello'']\<rparr> =
       (Inr \<lparr>resp_Role = MessageRoleAssistant,
             resp_Content = [\<lparr>Type = ContentTypeText, Text = ''Done.''\<rparr>],
             resp_StopReason = StopReasonEndTurn,
             resp_Usage = \<lparr>InputTokens = 120, OutputTokens = 30\<rparr>\<rparr>,
        [(''http://localhost:9100/chat'',
          \<lparr>ConversationID = ''c1'', Message = ''Hello'', WorkingDir = [],
           req_Model = ''codex''\<rparr>)])"
    by (simp add: Do_def Let_def e c r example_service_def StatusOK_def build_response_def)
  show ?thesis
    using t p u r d by simp
qed

section \<open>The working directory of turns from the client\<close>

lemma json_bytes_empty: "json_bytes n str = [] \<longleftrightarrow> str = []"
  by (cases "(n, str)" rule: json_bytes.cases)
    (auto simp: replacement_character_def split: nat.splits)

lemma json_string_empty: "json_string str = [] \<longleftrightarrow> str = []"
  by (simp add: json_string_def json_bytes_empty)

lemma Do_sent_shape:
  assumes "(url, r) \<in> set (snd (Do s env req))"
  shows "WorkingDir r = [] \<and> ConversationID r \<noteq> [] \<and> Message r \<noteq> []"
  using assms by (auto simp: Do_def Let_def split: if_splits)

lemma truthy_from_client:
  assumes "WorkingDir r = []" "ConversationID r \<noteq> []" "Message r \<noteq> []"
  shows "truthy (body_conversation_id (marshal_request r))"
    and "truthy (body_message (marshal_request r))"
    and "\<not> truthy (body_working_dir (marshal_request r))"
  using assms by (simp_all add: marshal_request_def truthy_def json_string_empty)

lemma defaulted_from_client:
  assumes "WorkingDir r = []"
  shows "defaulted_request cwd (marshal_request r) =
           \<lparr>conversation_id = json_string (ConversationID r),
            message = json_string (Message r),
            working_dir = cwd,
            model = (if req_Model r = [] then None else Some (json_string (req_Model r)))\<rparr>"
  using assms
  by (simp add: defaulted_request_def marshal_request_def truthy_def string_of_def
        json_string_empty)

lemma post_chat_accepts:
  assumes "truthy (body_conversation_id body)" "truthy (body_message body)"
  shows "post_chat env st body =
           (if isCodexModel (body_model body)
            then (respond (fst (codex_chat (env_codex env) (env_cwd env) (env_t_get env)
                                  (env_t_set env) (codexSessionManager st)
                                  (defaulted_request (env_cwd env) body))),
                  [(Codex, defaulted_request (env_cwd env) body)],
                  st\<lparr>codexSessionManager :=
                       snd (codex_chat (env_codex env) (env_cwd env) (env_t_get env)
                              (env_t_set env) (codexSessionManager st)
                              (defaulted_request (env_cwd env) body))\<rparr>)
            else (respond (fst (claude_chat (env_query env) (env_t_get env) (env_t_set env)
                                  (claudeSessionManager st)
                                  (defaulted_request (env_cwd env) body))),
                  [(ClaudeCode, defaulted_request (env_cwd env) body)],
                  st\<lparr>claudeSessionManager :=
                       snd (claude_chat (env_query env) (env_t_get env) (env_t_set env)
                              (claudeSessionManager st)
                              (defaulted_request (env_cwd env) body))\<rparr>))"
  using assms
  by (simp add: post_chat_def Let_def case_prod_beta defaulted_request_def)

lemma post_chat_single_accepts:
  assumes "truthy (body_conversation_id body)" "truthy (body_message body)"
  shows "post_chat_single env sm body =
           (respond (fst (claude_chat (env_query env) (env_t_get env) (env_t_set env) sm
                            (defaulted_request (env_cwd env) body))),
            [(ClaudeCode, defaulted_request (env_cwd env) body)],
            snd (claude_chat (env_query env) (env_t_get env) (env_t_set env) sm
                   (defaulted_request (env_cwd env) body)))"
  using assms
  by (simp add: post_chat_single_def Let_def case_prod_beta)

lemma claude_query_options_cwd:
  "claude_query_options req existing ''cwd'' =
     (if working_dir req = [] then None else Some (StringValue (working_dir req)))"
  by (simp add: claude_query_options_def Let_def split: option.splits)

text \<open>
  C10. Every request \<^verbatim>\<open>Do\<close> hands to the transport has an empty \<^verbatim>\<open>WorkingDir\<close>, which
  is written to the wire as the empty string. On the body of such a request either
  server's \<^verbatim>\<open>/chat\<close> handler runs the turn with the process's current directory as the
  working directory: its response, its one adapter call and the session tables it leaves
  are those of the adapter's \<^verbatim>\<open>chat\<close> on the request whose \<^verbatim>\<open>working_dir\<close> is that
  directory. There the streamed-events adapter calls its backend with the directory as
  the \<^verbatim>\<open>cwd\<close> option (when it is not empty), and the thread-based adapter, for a
  conversation without a handle, starts its thread in it.
\<close>

theorem client_leaves_working_dir_empty:
  "\<forall>(url, r) \<in> set (snd (Do s cenv lreq)).
      WorkingDir r = []
    \<and> body_working_dir (marshal_request r) = Some []
    \<and> (let q = \<lparr>conversation_id = json_string (ConversationID r),
                  message = json_string (Message r),
                  working_dir = env_cwd env,
                  model = (if req_Model r = [] then None
                           else Some (json_string (req_Model r)))\<rparr>
        in post_chat env st (marshal_request r) =
             (if isCodexModel (model q)
              then (respond (fst (codex_chat (env_codex env) (env_cwd env) (env_t_get env)
                                    (env_t_set env) (codexSessionManager st) q)),
                    [(Codex, q)],
                    st\<lparr>codexSessionManager :=
                         snd (codex_chat (env_codex env) (env_cwd env) (env_t_get env)
                                (env_t_set env) (codexSessionManager st) q)\<rparr>)
              else (respond (fst (claude_chat (env_query env) (env_t_get env) (env_t_set env)
                                    (claudeSessionManager st) q)),
                    [(ClaudeCode, q)],
                    st\<lparr>claudeSessionManager :=
                         snd (claude_chat (env_query env) (env_t_get env) (env_t_set env)
                                (claudeSessionManager st) q)\<rparr>))
         \<and> post_chat_single env sm (marshal_request r) =
             (respond (fst (claude_chat (env_query env) (env_t_get env) (env_t_set env) sm q)),
              [(ClaudeCode, q)],
              snd (claude_chat (env_query env) (env_t_get env) (env_t_set env) sm q))
         \<and> (\<forall>existing. claude_query_options q existing ''cwd'' =
               (if env_cwd env = [] then None else Some (StringValue (env_cwd env))))
         \<and> codex_open_thread (env_codex env) (env_cwd env) q None
             = startThread (env_codex env) (env_cwd env))"
proof (intro ballI, clarify)
  fix url r
  assume "(url, r) \<in> set (snd (Do s cenv lreq))"
  then have h: "WorkingDir r = []" "ConversationID r \<noteq> []" "Message r \<noteq> []"
    using Do_sent_shape by blast+
  let ?q = "\<lparr>conversation_id = json_string (ConversationID r),
             message = json_string (Message r),
             working_dir = env_cwd env,
             model = (if req_Model r = [] then None else Some (json_string (req_Model r)))\<rparr>"
  note t = truthy_from_client [OF h]
  have d: "defaulted_request (env_cwd env) (marshal_request r) = ?q"
    by (rule defaulted_from_client [OF h(1)])
  have m: "body_model (marshal_request r) = model ?q"
    by (simp add: marshal_request_def)
  have a: "body_working_dir (marshal_request r) = Some []"
    using h(1) by (simp add: marshal_request_def json_string_empty)
  have p: "post_chat env st (marshal_request r) =
             (if isCodexModel (model ?q)
              then (respond (fst (codex_chat (env_codex env) (env_cwd env) (env_t_get env)
                                    (env_t_set env) (codexSessionManager st) ?q)),
                    [(Codex, ?q)],
                    st\<lparr>codexSessionManager :=
                         snd (codex_chat (env_codex env) (env_cwd env) (env_t_get env)
                                (env_t_set env) (codexSessionManager st) ?q)\<rparr>)
              else (respond (fst (claude_chat (env_query env) (env_t_get env) (env_t_set env)
                                    (claudeSessionManager st) ?q)),
                    [(ClaudeCode, ?q)],
                    st\<lparr>claudeSessionManager :=
                         snd (claude_chat (env_query env) (env_t_get env) (env_t_set env)
                                (claudeSessionManager st) ?q)\<rparr>))"
    unfolding post_chat_accepts [OF t(1,2)] d m ..
  have ps: "post_chat_single env sm (marshal_request r) =
             (respond (fst (claude_chat (env_query env) (env_t_get env) (env_t_set env) sm ?q)),
              [(ClaudeCode, ?q)],
              snd (claude_chat (env_query env) (env_t_get env) (env_t_set env) sm ?q))"
    unfolding post_chat_single_accepts [OF t(1,2)] d ..
  have o: "\<forall>existing. claude_query_options ?q existing ''cwd'' =
               (if env_cwd env = [] then None else Some (StringValue (env_cwd env)))"
    by (simp add: claude_query_options_cwd)
  have c: "codex_open_thread (env_codex env) (env_cwd env) ?q None
             = startThread (env_codex env) (env_cwd env)"
    by (simp add: codex_open_thread_def)
  show "WorkingDir r = []
    \<and> body_working_dir (marshal_request r) = Some []
    \<and> (let q = ?q
        in post_chat env st (marshal_request r) =
             (if isCodexModel (model q)
              then (respond (fst (codex_chat (env_codex env) (env_cwd env) (env_t_get env)
                                    (env_t_set env) (codexSessionManager st) q)),
                    [(Codex, q)],
                    st\<lparr>codexSessionManager :=
                         snd (codex_chat (env_codex env) (env_cwd env) (env_t_get env)
                                (env_t_set env) (codexSessionManager st) q)\<rparr>)
              else (respond (fst (claude_chat (env_query env) (env_t_get env) (env_t_set env)
                                    (claudeSessionManager st) q)),
                    [(ClaudeCode, q)],
                    st\<lparr>claudeSessionManager :=
                         snd (claude_chat (env_query env) (env_t_get env) (env_t_set env)
                                (claudeSessionManager st) q)\<rparr>))
         \<and> post_chat_single env sm (marshal_request r) =
             (respond (fst (claude_chat (env_query env) (env_t_get env) (env_t_set env) sm q)),
              [(ClaudeCode, q)],
              snd (claude_chat (env_query env) (env_t_get env) (env_t_set env) sm q))
         \<and> (\<forall>existing. claude_query_options q existing ''cwd'' =
               (if env_cwd env = [] then None else Some (StringValue (env_cwd env))))
         \<and> codex_open_thread (env_codex env) (env_cwd env) q None
             = startThread (env_codex env) (env_cwd env))"
    unfolding Let_def using h(1) a p ps o c by blast
qed

theorem client_leaves_working_dir_empty_witness:
  "snd (Do example_service codex_bridge \<lparr>Messages = [user_says ''Hello'']\<rparr>) =
     [(''http://localhost:9100/chat'',
       \<lparr>ConversationID = ''c1'', Message = ''Hello'', WorkingDir = [], req_Model = ''codex''\<rparr>)]
   \<and> body_working_dir (marshal_request
         \<lparr>ConversationID = ''c1'', Message = ''Hello'', WorkingDir = [], req_Model = ''codex''\<rparr>)
       = Some []
   \<and> fst (post_chat echo_env example_state (marshal_request
         \<lparr>ConversationID = ''c1'', Message = ''Hello'', WorkingDir = [], req_Model = ''codex''\<rparr>))
       = \<lparr>status = 200,
          json = \<lparr>result = ''/srv/bridge'', session_id = ''t1'',
                  usage = \<lparr>input_tokens = 0, output_tokens = 0\<rparr>,
                  is_error = False, compacted = None\<rparr>\<rparr>
   \<and> fst (snd (post_chat echo_env example_state (marshal_request
         \<lparr>ConversationID = ''c1'', Message = ''Hello'', WorkingDir = [], req_Model = ''codex''\<rparr>)))
       = [(Codex, \<lparr>conversation_id = ''c1'', message = ''Hello'', working_dir = ''/srv/bridge'',
                   model = Some ''codex''\<rparr>)]
   \<and> fst (post_chat_single echo_env example_sessions (marshal_request
         \<lparr>ConversationID = ''c1'', Message = ''Hello'', WorkingDir = [], req_Model = ''codex''\<rparr>))
       = \<lparr>status = 200,
          json = \<lparr>result = ''/srv/bridge'', session_id = ''s1'',
                  usage = \<lparr>input_tokens = 0, output_tokens = 0\<rparr>,
                  is_error = False, compacted = None\<rparr>\<rparr>
   \<and> fst (snd (post_chat_single echo_env example_sessions (marshal_request
         \<lparr>ConversationID = ''c1'', Message = ''Hello'', WorkingDir = [], req_Model = ''codex''\<rparr>)))
       = [(ClaudeCode, \<lparr>conversation_id = ''c1'', message = ''Hello'',
                        working_dir = ''/srv/bridge'', model = Some ''codex''\<rparr>)]"
proof -
  let ?r = "\<lparr>ConversationID = ''c1'', Message = ''Hello'', WorkingDir = [],
             req_Model = ''codex''\<rparr>"
  let ?q = "\<lparr>conversation_id = ''c1'', message = ''Hello'', working_dir = ''/srv/bridge'',
             model = Some ''codex''\<rparr>"
  note t = client_leaves_working_dir_empty [where s = example_service and cenv = codex_bridge
      and lreq = "\<lparr>Messages = [user_says ''Hello'']\<rparr>" and env = echo_env
      and st = example_state and sm = example_sessions]
  have e: "extractLastUserMessage [user_says ''Hello''] = ''Hello''"
    by (simp add: extractLastUserMessage_def user_says_def)
  have c: "ConversationIDFromContext codex_bridge = ''c1''" "new_request_ok codex_bridge x" for x
    by (simp_all add: codex_bridge_def)
  have d: "snd (Do example_service codex_bridge \<lparr>Messages = [user_says ''Hello'']\<rparr>) =
     [(''http://localhost:9100/chat'', ?r)]"
    by (simp add: Do_def Let_def e c example_service_def)
  have j: "json_string ''c1'' = ''c1''" "json_string ''Hello'' = ''Hello''"
    "json_string ''codex'' = ''codex''"
    by (simp_all add: json_string_def)
  have v: "env_cwd echo_env = ''/srv/bridge''" "env_codex echo_env = echo_codex"
    "env_query echo_env = echo_sdk" "env_t_get echo_env = 5" "env_t_set echo_env = 6"
    by (simp_all add: echo_env_def)
  from t d have a: "body_working_dir (marshal_request ?r) = Some []"
    by simp
  from t d have p: "post_chat echo_env example_state (marshal_request ?r) =
      (respond (fst (codex_chat echo_codex ''/srv/bridge'' 5 6
                       (codexSessionManager example_state) ?q)),
       [(Codex, ?q)],
       example_state\<lparr>codexSessionManager :=
         snd (codex_chat echo_codex ''/srv/bridge'' 5 6 (codexSessionManager example_state) ?q)\<rparr>)"
    by (simp add: Let_def j v isCodexModel_def)
  from t d have ps: "post_chat_single echo_env example_sessions (marshal_request ?r) =
      (respond (fst (claude_chat echo_sdk 5 6 example_sessions ?q)),
       [(ClaudeCode, ?q)],
       snd (claude_chat echo_sdk 5 6 example_sessions ?q))"
    by (simp add: Let_def j v)
  have x: "fst (codex_chat echo_codex ''/srv/bridge'' 5 6 (codexSessionManager example_state) ?q)
      = Inr \<lparr>result = ''/srv/bridge'', session_id = ''t1'',
             usage = \<lparr>input_tokens = 0, output_tokens = 0\<rparr>,
             is_error = False, compacted = None\<rparr>"
    by (simp add: codex_chat_def example_state_def SessionManager_get_def echo_codex_def
        echo_thread_def codex_open_thread_def codex_after_turn_def codex_initial_def
        codex_response_def best_handle_def)
  have y: "fst (claude_chat echo_sdk 5 6 example_sessions ?q)
      = Inr \<lparr>result = ''/srv/bridge'', session_id = ''s1'',
             usage = \<lparr>input_tokens = 0, output_tokens = 0\<rparr>,
             is_error = False, compacted = None\<rparr>"
    by (simp add: claude_chat_def example_sessions_def SessionManager_get_def echo_sdk_def
        cwd_option_def claude_query_options_def init_message_def result_message_def
        on_message_def claude_initial_def claude_response_def best_handle_def)
  have p1: "fst (post_chat echo_env example_state (marshal_request ?r))
       = \<lparr>status = 200,
          json = \<lparr>result = ''/srv/bridge'', session_id = ''t1'',
                  usage = \<lparr>input_tokens = 0, output_tokens = 0\<rparr>,
                  is_error = False, compacted = None\<rparr>\<rparr>"
    unfolding p by (simp add: x respond_def)
  have p2: "fst (snd (post_chat echo_env example_state (marshal_request ?r))) = [(Codex, ?q)]"
    unfolding p by simp
  have s1: "fst (post_chat_single echo_env example_sessions (marshal_request ?r))
       = \<lparr>status = 200,
          json = \<lparr>result = ''/srv/bridge'', session_id = ''s1'',
                  usage = \<lparr>input_tokens = 0, output_tokens = 0\<rparr>,
                  is_error = False, compacted = None\<rparr>\<rparr>"
    unfolding ps by (simp add: y respond_def)
  have s2: "fst (snd (post_chat_single echo_env example_sessions (marshal_request ?r)))
      = [(ClaudeCode, ?q)]"
    unfolding ps by simp
  show ?thesis
    by (intro conjI) (fact d a p1 p2 s1 s2)+
qed


end
